theory Spec2Isabelle
  imports Complex_Main "HOL-Library.Word"
begin

unbundle bit_operations_syntax

section \<open>Errors\<close>

text \<open>
  The exceptions of \<^verbatim>\<open>gridformat/common/exceptions.hpp\<close> that the modelled code throws,
  each with its message. \<open>OutOfRange\<close> stands for \<^verbatim>\<open>std::out_of_range\<close> (thrown by
  \<^verbatim>\<open>.at()\<close>), \<open>AssertionFailed\<close> for a failing \<^verbatim>\<open>assert\<close> and for the
  out-of-bounds access the assertion guards, \<open>LengthError\<close> for \<^verbatim>\<open>std::length_error\<close>,
  and \<open>Undefined\<close> for behaviour the language leaves undefined (an unguarded out-of-bounds
  access, dereferencing a past-the-end iterator).
\<close>

datatype error =
    ValueError string
  | NotImplemented string
  | InvalidState string
  | OutOfRange
  | AssertionFailed
  | LengthError
  | Undefined

section \<open>VTK attribute names (gridformat/vtk/attributes.hpp)\<close>

subsection \<open>Encoders and data formats\<close>

text \<open>The alternatives of the \<^verbatim>\<open>Encoder\<close> variant (encoding.hpp) and the two data placements.\<close>

datatype Encoder = Ascii | Base64 | RawBinary

datatype DataFormat = Appended | Inlined

text \<open>\<^verbatim>\<open>attribute_name(const Encoding::X&)\<close>, one overload per encoder.\<close>

fun attribute_name_encoder :: "Encoder \<Rightarrow> string" where
  "attribute_name_encoder Ascii = ''ascii''"
| "attribute_name_encoder Base64 = ''base64''"
| "attribute_name_encoder RawBinary = ''raw''"

text \<open>
  The fallback template of \<^verbatim>\<open>data_format_name\<close>: it always throws a \<^verbatim>\<open>ValueError\<close> whose
  message is assembled from the encoder name, the format name and the other format's name.
\<close>

definition data_format_name_fallback :: "Encoder \<Rightarrow> DataFormat \<Rightarrow> error + string" where
  "data_format_name_fallback e format =
     (let encoder_name = attribute_name_encoder e;
          format_name = (case format of Appended \<Rightarrow> ''appended'' | Inlined \<Rightarrow> ''inlined'');
          other_format_name = (case format of
              Appended \<Rightarrow> ''GridFormat::VTK::inlined''
            | Inlined \<Rightarrow> ''GridFormat::VTK::appended'')
      in Inl (ValueError (
           ''VTK'' @ [CHR 0x27] @ ''s '' @ [CHR 0x27] @ format_name @ [CHR 0x27]
           @ '' data format cannot be used with '' @ encoder_name
           @ '' encoding. Please choose '' @ [CHR 0x27] @ other_format_name @ [CHR 0x27]
           @ '' or a different encoder.'')))"

text \<open>
  \<^verbatim>\<open>data_format_name\<close>: overload resolution picks one of the four non-template overloads when
  the argument types match exactly, and the template otherwise.
\<close>

fun data_format_name :: "Encoder \<Rightarrow> DataFormat \<Rightarrow> error + string" where
  "data_format_name RawBinary Appended = Inr ''appended''"
| "data_format_name Base64 Appended = Inr ''appended''"
| "data_format_name Base64 Inlined = Inr ''binary''"
| "data_format_name Ascii Inlined = Inr ''ascii''"
| "data_format_name e format = data_format_name_fallback e format"

subsection \<open>Precision names\<close>

text \<open>
  What \<^verbatim>\<open>attribute_name\<close> reads from a \<^verbatim>\<open>DynamicPrecision\<close>: whether the scalar type is
  integral, whether it is signed, and its size in bytes (a \<^verbatim>\<open>std::size_t\<close>, 64 bits wide).
\<close>

record DynamicPrecision =
  is_integral :: bool
  is_signed :: bool
  size_in_bytes :: "64 word"

text \<open>\<^verbatim>\<open>std::to_string\<close> on an unsigned integer: its decimal digits, most significant first.\<close>

definition digit_char :: "nat \<Rightarrow> char" where
  "digit_char d = ''0123456789'' ! d"

function to_string :: "nat \<Rightarrow> string" where
  "to_string n = (if n < 10 then [digit_char n] else to_string (n div 10) @ [digit_char (n mod 10)])"
  by pat_completeness auto
termination
  by (relation "measure id") auto

declare to_string.simps [simp del]

text \<open>
  \<^verbatim>\<open>attribute_name(const DynamicPrecision&)\<close>. The product \<^verbatim>\<open>size_in_bytes()*8\<close> is computed
  in \<^verbatim>\<open>std::size_t\<close>, so it wraps modulo \<open>2 ^ 64\<close>.
\<close>

definition attribute_name :: "DynamicPrecision \<Rightarrow> string" where
  "attribute_name prec =
     (let prefix = (if is_integral prec then (if is_signed prec then ''Int'' else ''UInt'') else ''Float'')
      in prefix @ to_string (unat (size_in_bytes prec * 8)))"

text \<open>Reading a decimal numeral back: the value of a digit and of a digit string.\<close>

definition digit_value :: "char \<Rightarrow> nat" where
  "digit_value c = of_char c - 48"

definition decimal_value :: "string \<Rightarrow> nat" where
  "decimal_value s = foldl (\<lambda>acc c. 10 * acc + digit_value c) 0 s"

definition is_digit :: "char \<Rightarrow> bool" where
  "is_digit c = (c \<in> set ''0123456789'')"

section \<open>Sequencing of fallible steps\<close>

text \<open>A loop whose body may throw: the first error ends it.\<close>

fun mapE :: "('a \<Rightarrow> error + 'b) \<Rightarrow> 'a list \<Rightarrow> error + 'b list" where
  "mapE f [] = Inr []"
| "mapE f (x # xs) =
     (case f x of
        Inl e \<Rightarrow> Inl e
      | Inr y \<Rightarrow> (case mapE f xs of Inl e \<Rightarrow> Inl e | Inr ys \<Rightarrow> Inr (y # ys)))"

fun foldE :: "('a \<Rightarrow> 's \<Rightarrow> error + 's) \<Rightarrow> 'a list \<Rightarrow> 's \<Rightarrow> error + 's" where
  "foldE f [] s = Inr s"
| "foldE f (x # xs) s = (case f x s of Inl e \<Rightarrow> Inl e | Inr s' \<Rightarrow> foldE f xs s')"

section \<open>Dune grid views (traits for Dune::GridView)\<close>

subsection \<open>Geometry types and cell types\<close>

text \<open>
  A \<^verbatim>\<open>Dune::GeometryType\<close> is a topology id, a dimension and the flag of the singular
  type "none"; \<^verbatim>\<open>id()\<close> reads the topology id and the two-argument constructor builds a
  type that is not "none". The queries below are those of the Dune library: bit 0 of the
  topology id is irrelevant, the remaining bits say for each dimension whether the shape
  is a prism (1) or a pyramid (0) over the shape one dimension lower.
\<close>

record GeometryType =
  topologyId :: nat
  gt_dim :: nat
  gt_none :: bool

definition isVertex :: "GeometryType \<Rightarrow> bool" where
  "isVertex gt = (gt_dim gt = 0)"

definition isLine :: "GeometryType \<Rightarrow> bool" where
  "isLine gt = (gt_dim gt = 1)"

definition isTriangle :: "GeometryType \<Rightarrow> bool" where
  "isTriangle gt = (\<not> gt_none gt \<and> gt_dim gt = 2 \<and> (topologyId gt OR 1) = 1)"

definition isQuadrilateral :: "GeometryType \<Rightarrow> bool" where
  "isQuadrilateral gt = (\<not> gt_none gt \<and> gt_dim gt = 2 \<and> (topologyId gt OR 1) = 3)"

definition isTetrahedron :: "GeometryType \<Rightarrow> bool" where
  "isTetrahedron gt = (\<not> gt_none gt \<and> gt_dim gt = 3 \<and> (topologyId gt OR 1) = 1)"

definition isHexahedron :: "GeometryType \<Rightarrow> bool" where
  "isHexahedron gt = (\<not> gt_none gt \<and> gt_dim gt = 3 \<and> (topologyId gt OR 1) = 7)"

text \<open>The tags of \<^verbatim>\<open>GridFormat::CellType\<close> that the Dune traits produce.\<close>

datatype CellType =
    vertex | segment | triangle | quadrilateral | tetrahedron | hexahedron
  | lagrange_segment | lagrange_triangle | lagrange_quadrilateral
  | lagrange_tetrahedron | lagrange_hexahedron

text \<open>
  \<^verbatim>\<open>DuneDetail::map_corner_index\<close>. The index comes from an unsigned range, so it is a
  natural number; an index the assertion rejects is an error.
\<close>

definition map_corner_index :: "GeometryType \<Rightarrow> nat \<Rightarrow> error + nat" where
  "map_corner_index gt i =
     (if isQuadrilateral gt then
        (if i < 4 then Inr ([0, 1, 3, 2] ! i) else Inl AssertionFailed)
      else if isHexahedron gt then
        (if i < 8 then Inr ([0, 1, 3, 2, 4, 5, 7, 6] ! i) else Inl AssertionFailed)
      else Inr i)"

text \<open>\<^verbatim>\<open>DuneDetail::cell_type\<close>.\<close>

definition DuneDetail_cell_type :: "GeometryType \<Rightarrow> error + CellType" where
  "DuneDetail_cell_type gt =
     (if isVertex gt then Inr vertex
      else if isLine gt then Inr segment
      else if isTriangle gt then Inr triangle
      else if isQuadrilateral gt then Inr quadrilateral
      else if isTetrahedron gt then Inr tetrahedron
      else if isHexahedron gt then Inr hexahedron
      else Inl (NotImplemented ''Unknown Dune::GeometryType''))"

subsection \<open>Entities and grid views\<close>

text \<open>The partition types of Dune entities and the partition sets its iterators select.\<close>

datatype PartitionType = InteriorEntity | BorderEntity | OverlapEntity | FrontEntity | GhostEntity

datatype PartitionIteratorType =
    Interior_Partition | InteriorBorder_Partition | Overlap_Partition
  | OverlapFront_Partition | All_Partition | Ghost_Partition

fun in_partition :: "PartitionIteratorType \<Rightarrow> PartitionType \<Rightarrow> bool" where
  "in_partition Interior_Partition p = (p = InteriorEntity)"
| "in_partition InteriorBorder_Partition p = (p = InteriorEntity \<or> p = BorderEntity)"
| "in_partition Overlap_Partition p = (p = InteriorEntity \<or> p = BorderEntity \<or> p = OverlapEntity)"
| "in_partition OverlapFront_Partition p = (p \<noteq> GhostEntity)"
| "in_partition All_Partition p = True"
| "in_partition Ghost_Partition p = (p = GhostEntity)"

text \<open>
  What the traits read from a Dune entity: its geometry type, partition type, level and
  index in the view's index set; the number of its sub-entities of each codimension; its
  sub-entities of the highest codimension (the corners, in Dune's numbering); the index a
  codimension's mapper gives to each sub-entity; and the map from local to global
  coordinates. \<open>'v\<close> is the type of vertex handles, \<open>'l\<close> of local and \<open>'p\<close> of global
  positions.
\<close>

record ('v, 'l, 'p) Entity =
  ent_type :: GeometryType
  ent_partition :: PartitionType
  ent_level :: nat
  ent_index :: nat
  ent_subEntities :: "nat \<Rightarrow> nat"
  ent_subEntity :: "nat \<Rightarrow> 'v"
  ent_subIndex :: "nat \<Rightarrow> nat \<Rightarrow> nat"
  ent_global :: "'l \<Rightarrow> 'p"

text \<open>
  A grid view: the size of its communicator, its dimension and, for each codimension, the
  entities of the view (of every partition type).
\<close>

record ('v, 'l, 'p) GridView =
  gv_comm_size :: nat
  gv_dimension :: nat
  gv_entities :: "nat \<Rightarrow> ('v, 'l, 'p) Entity list"

text \<open>\<^verbatim>\<open>grid_view.size(codim)\<close>: the number of entities of a codimension in the view.\<close>

definition gv_size :: "('v, 'l, 'p) GridView \<Rightarrow> nat \<Rightarrow> nat" where
  "gv_size grid_view codim = length (gv_entities grid_view codim)"

text \<open>
  The range from \<^verbatim>\<open>begin<codim, pitype>()\<close> to \<^verbatim>\<open>end<codim, pitype>()\<close>: the entities of
  the codimension whose partition type belongs to the partition set.
\<close>

definition gv_range ::
  "('v, 'l, 'p) GridView \<Rightarrow> nat \<Rightarrow> PartitionIteratorType \<Rightarrow> ('v, 'l, 'p) Entity list" where
  "gv_range grid_view codim pitype =
     filter (\<lambda>e. in_partition pitype (ent_partition e)) (gv_entities grid_view codim)"

subsection \<open>The traits\<close>

definition Points_Dune :: "('v, 'l, 'p) GridView \<Rightarrow> ('v, 'l, 'p) Entity list" where
  "Points_Dune grid_view = gv_range grid_view (gv_dimension grid_view) InteriorBorder_Partition"

definition Cells_Dune :: "('v, 'l, 'p) GridView \<Rightarrow> ('v, 'l, 'p) Entity list" where
  "Cells_Dune grid_view = gv_range grid_view 0 Interior_Partition"

definition NumberOfPoints_Dune :: "('v, 'l, 'p) GridView \<Rightarrow> nat" where
  "NumberOfPoints_Dune grid_view =
     (if gv_comm_size grid_view = 1 then gv_size grid_view (gv_dimension grid_view)
      else length (Points_Dune grid_view))"

definition NumberOfCells_Dune :: "('v, 'l, 'p) GridView \<Rightarrow> nat" where
  "NumberOfCells_Dune grid_view =
     (if gv_comm_size grid_view = 1 then gv_size grid_view 0
      else length (Cells_Dune grid_view))"

definition NumberOfCellPoints_Dune :: "('v, 'l, 'p) GridView \<Rightarrow> ('v, 'l, 'p) Entity \<Rightarrow> nat" where
  "NumberOfCellPoints_Dune grid_view cell = ent_subEntities cell (gv_dimension grid_view)"

text \<open>
  \<^verbatim>\<open>element.subEntity<dim>(k)\<close>: defined for the corners the element has.
\<close>

definition subEntity :: "('v, 'l, 'p) Entity \<Rightarrow> nat \<Rightarrow> nat \<Rightarrow> error + 'v" where
  "subEntity element dimension k =
     (if k < ent_subEntities element dimension then Inr (ent_subEntity element k) else Inl Undefined)"

definition CellPoints_Dune :: "('v, 'l, 'p) GridView \<Rightarrow> ('v, 'l, 'p) Entity \<Rightarrow> error + 'v list" where
  "CellPoints_Dune grid_view element =
     (let dimension = gv_dimension grid_view
      in mapE (\<lambda>i. case map_corner_index (ent_type element) i of
                      Inl e \<Rightarrow> Inl e
                    | Inr k \<Rightarrow> subEntity element dimension k)
              [0 ..< ent_subEntities element dimension])"

definition CellType_Dune :: "('v, 'l, 'p) GridView \<Rightarrow> ('v, 'l, 'p) Entity \<Rightarrow> error + CellType" where
  "CellType_Dune grid_view element = DuneDetail_cell_type (ent_type element)"

definition PointId_Dune :: "('v, 'l, 'p) GridView \<Rightarrow> ('v, 'l, 'p) Entity \<Rightarrow> nat" where
  "PointId_Dune grid_view v = ent_index v"

subsection \<open>YaspGrid as a structured grid\<close>

text \<open>
  What the structured-grid traits read from one level of a YaspGrid: the index bounds
  \<^verbatim>\<open>min(i)\<close> and \<^verbatim>\<open>max(i)\<close> of the interior cell grid in each direction and
  \<^verbatim>\<open>coords.coordinate(direction, index)\<close>. The bounds and the index are C++ \<^verbatim>\<open>int\<close>s:
  32-bit words read as two's complement by \<open>sint\<close>. The traits compute with them in
  \<^verbatim>\<open>int\<close>, so sums and differences wrap around modulo \<open>2 ^ 32\<close> (what the compiled code
  does where the language leaves signed overflow undefined).
\<close>

record 'c YGridLevel =
  interior_min :: "nat \<Rightarrow> 32 word"
  interior_max :: "nat \<Rightarrow> 32 word"
  coordinate :: "nat \<Rightarrow> 32 word \<Rightarrow> 'c"

text \<open>A grid view of a YaspGrid, with the levels of the grid it views.\<close>

record ('v, 'l, 'p, 'c) YaspGridView =
  yasp_view :: "('v, 'l, 'p) GridView"
  yasp_levels :: "'c YGridLevel list"

text \<open>
  The common preamble of the traits: the level of the first interior cell selects the grid
  level. Dereferencing the begin of an empty cell range, or a level iterator beyond the
  last level, is undefined.
\<close>

definition yasp_grid_level :: "('v, 'l, 'p, 'c) YaspGridView \<Rightarrow> error + 'c YGridLevel" where
  "yasp_grid_level grid_view =
     (case Cells_Dune (yasp_view grid_view) of
        [] \<Rightarrow> Inl Undefined
      | first # _ \<Rightarrow>
          (let level = ent_level first
           in if level < length (yasp_levels grid_view)
              then Inr (yasp_levels grid_view ! level) else Inl Undefined))"

text \<open>
  The conversion of the value of a C++ \<^verbatim>\<open>int\<close> to \<^verbatim>\<open>std::size_t\<close>: modulo \<open>2 ^ 64\<close>.
\<close>

definition size_t_of_int :: "int \<Rightarrow> nat" where
  "size_t_of_int x = nat (x mod 2 ^ 64)"

text \<open>
  \<^verbatim>\<open>Extents::get\<close>: \<^verbatim>\<open>gc.max(i) - gc.min(i) + 1\<close> is computed in \<^verbatim>\<open>int\<close> and then
  converted to the \<^verbatim>\<open>std::size_t\<close> entry of the result.
\<close>

definition Extents_Yasp :: "('v, 'l, 'p, 'c) YaspGridView \<Rightarrow> error + nat list" where
  "Extents_Yasp grid_view =
     (case yasp_grid_level grid_view of
        Inl e \<Rightarrow> Inl e
      | Inr gc \<Rightarrow>
          Inr (map (\<lambda>i. size_t_of_int (sint (interior_max gc i - interior_min gc i + 1)))
                   [0 ..< gv_dimension (yasp_view grid_view)]))"

text \<open>
  \<^verbatim>\<open>Ordinates::get\<close>: \<^verbatim>\<open>num_point_ordinates\<close> is an \<^verbatim>\<open>int\<close>; the vector is built with
  that many entries and each is then assigned, the loop counter and the index
  \<^verbatim>\<open>min(direction) + i\<close> being \<^verbatim>\<open>int\<close>s too. A negative count converts to a size beyond
  \<^verbatim>\<open>max_size()\<close>, which the vector's constructor rejects with \<^verbatim>\<open>std::length_error\<close>.
\<close>

definition Ordinates_Yasp :: "('v, 'l, 'p, 'c) YaspGridView \<Rightarrow> nat \<Rightarrow> error + 'c list" where
  "Ordinates_Yasp grid_view direction =
     (case yasp_grid_level grid_view of
        Inl e \<Rightarrow> Inl e
      | Inr grid_level \<Rightarrow>
          (let num_point_ordinates =
                 interior_max grid_level direction - interior_min grid_level direction + 2
           in if sint num_point_ordinates < 0 then Inl LengthError
              else Inr (map (\<lambda>i. coordinate grid_level direction
                                    (interior_min grid_level direction + of_nat i))
                            [0 ..< nat (sint num_point_ordinates)])))"

section \<open>CGAL triangulations (traits for CGAL::Triangulation_2 and Triangulation_3)\<close>

text \<open>
  Which of the two concepts a grid type satisfies, and what the traits read from a
  triangulation: all its vertices, faces (2D) and cells (3D), which of them are infinite,
  and CGAL's hash of a vertex handle. The operations below are CGAL's: the finite handle
  ranges skip the infinite entities, and the counts are those of the finite entities.
\<close>

datatype CGALGrid = CGALGrid2D | CGALGrid3D

record ('vh, 'ch) Triangulation =
  tr_concept :: CGALGrid
  tr_all_vertices :: "'vh list"
  tr_all_faces :: "'ch list"
  tr_all_cells :: "'ch list"
  tr_is_infinite_vertex :: "'vh \<Rightarrow> bool"
  tr_is_infinite :: "'ch \<Rightarrow> bool"
  Handle_hash_function :: "'vh \<Rightarrow> nat"

definition finite_vertex_handles :: "('vh, 'ch) Triangulation \<Rightarrow> 'vh list" where
  "finite_vertex_handles grid = filter (\<lambda>v. \<not> tr_is_infinite_vertex grid v) (tr_all_vertices grid)"

definition finite_face_handles :: "('vh, 'ch) Triangulation \<Rightarrow> 'ch list" where
  "finite_face_handles grid = filter (\<lambda>f. \<not> tr_is_infinite grid f) (tr_all_faces grid)"

definition finite_cell_handles :: "('vh, 'ch) Triangulation \<Rightarrow> 'ch list" where
  "finite_cell_handles grid = filter (\<lambda>c. \<not> tr_is_infinite grid c) (tr_all_cells grid)"

definition number_of_vertices :: "('vh, 'ch) Triangulation \<Rightarrow> nat" where
  "number_of_vertices grid = length (filter (\<lambda>v. \<not> tr_is_infinite_vertex grid v) (tr_all_vertices grid))"

definition number_of_faces :: "('vh, 'ch) Triangulation \<Rightarrow> nat" where
  "number_of_faces grid = length (filter (\<lambda>f. \<not> tr_is_infinite grid f) (tr_all_faces grid))"

definition number_of_finite_cells :: "('vh, 'ch) Triangulation \<Rightarrow> nat" where
  "number_of_finite_cells grid = length (filter (\<lambda>c. \<not> tr_is_infinite grid c) (tr_all_cells grid))"

definition Cells_CGAL :: "('vh, 'ch) Triangulation \<Rightarrow> 'ch list" where
  "Cells_CGAL grid =
     (case tr_concept grid of
        CGALGrid2D \<Rightarrow> map (\<lambda>it. it) (finite_face_handles grid)
      | CGALGrid3D \<Rightarrow> map (\<lambda>it. it) (finite_cell_handles grid))"

definition Points_CGAL :: "('vh, 'ch) Triangulation \<Rightarrow> 'vh list" where
  "Points_CGAL grid = map (\<lambda>it. it) (finite_vertex_handles grid)"

definition PointId_CGAL :: "('vh, 'ch) Triangulation \<Rightarrow> 'vh \<Rightarrow> nat" where
  "PointId_CGAL grid v = Handle_hash_function grid v"

definition CellType_CGAL :: "('vh, 'ch) Triangulation \<Rightarrow> 'ch \<Rightarrow> CellType" where
  "CellType_CGAL grid cell = (case tr_concept grid of CGALGrid2D \<Rightarrow> triangle | CGALGrid3D \<Rightarrow> tetrahedron)"

definition NumberOfPoints_CGAL :: "('vh, 'ch) Triangulation \<Rightarrow> nat" where
  "NumberOfPoints_CGAL grid = number_of_vertices grid"

definition NumberOfCells_CGAL :: "('vh, 'ch) Triangulation \<Rightarrow> nat" where
  "NumberOfCells_CGAL grid =
     (case tr_concept grid of
        CGALGrid2D \<Rightarrow> number_of_faces grid
      | CGALGrid3D \<Rightarrow> number_of_finite_cells grid)"

definition NumberOfCellPoints_CGAL :: "('vh, 'ch) Triangulation \<Rightarrow> 'ch \<Rightarrow> nat" where
  "NumberOfCellPoints_CGAL grid cell = (case tr_concept grid of CGALGrid2D \<Rightarrow> 3 | CGALGrid3D \<Rightarrow> 4)"

section \<open>DuneLagrangeMesh\<close>

subsection \<open>DuneLagrangeDetail\<close>

text \<open>Reading a constant table at an index the preceding assertion checks.\<close>

definition table_at :: "nat list \<Rightarrow> nat \<Rightarrow> error + nat" where
  "table_at table i = (if i < length table then Inr (table ! i) else Inl AssertionFailed)"

definition dune_to_gfmt_sub_entity :: "GeometryType \<Rightarrow> nat \<Rightarrow> nat \<Rightarrow> error + nat" where
  "dune_to_gfmt_sub_entity gt i codim =
     (if isTriangle gt \<and> codim = 1 then table_at [0, 2, 1] i
      else if isQuadrilateral gt \<and> codim = 2 then table_at [0, 1, 3, 2] i
      else if isQuadrilateral gt \<and> codim = 1 then table_at [3, 1, 0, 2] i
      else if isTetrahedron gt \<and> codim = 2 then table_at [0, 2, 1, 3, 4, 5] i
      else if isTetrahedron gt \<and> codim = 1 then table_at [3, 0, 2, 1] i
      else if isHexahedron gt \<and> codim = 3 then table_at [0, 1, 3, 2, 4, 5, 7, 6] i
      else if isHexahedron gt \<and> codim = 2 then table_at [8, 9, 11, 10, 3, 1, 0, 2, 7, 5, 4, 6] i
      else Inr i)"

definition DuneLagrangeDetail_cell_type :: "GeometryType \<Rightarrow> error + CellType" where
  "DuneLagrangeDetail_cell_type gt =
     (if isLine gt then Inr lagrange_segment
      else if isTriangle gt then Inr lagrange_triangle
      else if isQuadrilateral gt then Inr lagrange_quadrilateral
      else if isTetrahedron gt then Inr lagrange_tetrahedron
      else if isHexahedron gt then Inr lagrange_hexahedron
      else Inl (NotImplemented ''Unsupported Dune::GeometryType''))"

subsection \<open>Local points and the point index helper\<close>

text \<open>
  A point of Dune's equidistant point set: the codimension, sub-entity and index of its
  local key, and its local position. The point sets themselves are Dune's, so the mesh
  takes them as a parameter: for an order and a geometry type, the list of local points.
\<close>

record 'l LocalPoint =
  lp_codim :: nat
  lp_subEntity :: nat
  lp_index :: nat
  lp_point :: 'l

type_synonym 'l LocalPoints = "nat \<Rightarrow> GeometryType \<Rightarrow> 'l LocalPoint list"

text \<open>
  \<^verbatim>\<open>PointIndicesHelper\<close>: three nested hash maps from codimension, entity index and
  sub-index to a point index, kept here as one association list with unique keys
  \<open>(codim, global_index, sub_index)\<close>. An inner map exists exactly when it has an entry.
\<close>

type_synonym Key = "nat \<times> nat \<times> nat"

type_synonym PointIndicesHelper = "(Key \<times> nat) list"

definition contains :: "PointIndicesHelper \<Rightarrow> Key \<Rightarrow> bool" where
  "contains point_indices key = (map_of point_indices key \<noteq> None)"

fun insert_key :: "PointIndicesHelper \<Rightarrow> Key \<Rightarrow> nat \<Rightarrow> PointIndicesHelper" where
  "insert_key [] key index = [(key, index)]"
| "insert_key ((k, v) # rest) key index =
     (if k = key then (key, index) # rest else (k, v) # insert_key rest key index)"

text \<open>\<^verbatim>\<open>get(codim, global_index)\<close>: the inner map, as its list of entries; \<^verbatim>\<open>.at\<close> throws when there is none.\<close>

definition get_indices :: "PointIndicesHelper \<Rightarrow> nat \<Rightarrow> nat \<Rightarrow> error + (nat \<times> nat) list" where
  "get_indices point_indices codim global_index =
     (let entries = map (\<lambda>((c, g, sub_index), index). (sub_index, index))
                        (filter (\<lambda>((c, g, sub_index), index). c = codim \<and> g = global_index)
                                point_indices)
      in if entries = [] then Inl OutOfRange else Inr entries)"

subsection \<open>The mesh\<close>

record ('v, 'l, 'p) DuneLagrangeMesh =
  m_grid_view :: "('v, 'l, 'p) GridView"
  m_order :: nat
  m_points :: "'p list"
  m_cells :: "nat list list"
  m_cell_topology_id :: "nat list"
  m_local_points :: "(GeometryType \<times> 'l LocalPoint list) list"

definition number_of_points :: "('v, 'l, 'p) DuneLagrangeMesh \<Rightarrow> nat" where
  "number_of_points mesh = length (m_points mesh)"

definition number_of_cells :: "('v, 'l, 'p) DuneLagrangeMesh \<Rightarrow> nat" where
  "number_of_cells mesh = length (m_cells mesh)"

definition point :: "('v, 'l, 'p) DuneLagrangeMesh \<Rightarrow> nat \<Rightarrow> error + 'p" where
  "point mesh i = (if i < length (m_points mesh) then Inr (m_points mesh ! i) else Inl OutOfRange)"

definition cell_points :: "('v, 'l, 'p) DuneLagrangeMesh \<Rightarrow> nat \<Rightarrow> error + nat list" where
  "cell_points mesh i = (if i < length (m_cells mesh) then Inr (m_cells mesh ! i) else Inl OutOfRange)"

definition geometry_type :: "('v, 'l, 'p) DuneLagrangeMesh \<Rightarrow> nat \<Rightarrow> error + GeometryType" where
  "geometry_type mesh i =
     (if i < length (m_cell_topology_id mesh)
      then Inr \<lparr>topologyId = m_cell_topology_id mesh ! i,
                gt_dim = gv_dimension (m_grid_view mesh), gt_none = False\<rparr>
      else Inl OutOfRange)"

text \<open>
  \<^verbatim>\<open>_update_local_points\<close>: one point set per geometry type of the view's elements
  (\<^verbatim>\<open>indexSet().types(0)\<close>), built for the mesh's order.
\<close>

definition types0 :: "('v, 'l, 'p) GridView \<Rightarrow> GeometryType list" where
  "types0 grid_view = remdups (map ent_type (gv_entities grid_view 0))"

definition update_local_points ::
  "'l LocalPoints \<Rightarrow> nat \<Rightarrow> ('v, 'l, 'p) GridView \<Rightarrow> (GeometryType \<times> 'l LocalPoint list) list" where
  "update_local_points build order grid_view = map (\<lambda>gt. (gt, build order gt)) (types0 grid_view)"

definition local_points_at ::
  "(GeometryType \<times> 'l LocalPoint list) list \<Rightarrow> GeometryType \<Rightarrow> error + 'l LocalPoint list" where
  "local_points_at local_points gt =
     (case map_of local_points gt of None \<Rightarrow> Inl OutOfRange | Some ps \<Rightarrow> Inr ps)"

text \<open>
  \<^verbatim>\<open>_make_codim_mappers\<close> and \<^verbatim>\<open>codim_to_mapper.at(codim).subIndex(element, i, codim)\<close>:
  there is a mapper for the codimensions 0 and 1, for 2 from dimension 2 on, and for 3 in
  dimension 3.
\<close>

definition has_mapper :: "nat \<Rightarrow> nat \<Rightarrow> bool" where
  "has_mapper dimension codim =
     (codim = 0 \<or> codim = 1 \<or> (codim = 2 \<and> dimension \<ge> 2) \<or> (codim = 3 \<and> dimension = 3))"

definition mapper_subIndex ::
  "('v, 'l, 'p) GridView \<Rightarrow> ('v, 'l, 'p) Entity \<Rightarrow> nat \<Rightarrow> nat \<Rightarrow> error + nat" where
  "mapper_subIndex grid_view element sub_entity codim =
     (if has_mapper (gv_dimension grid_view) codim
      then Inr (ent_subIndex element codim sub_entity) else Inl OutOfRange)"

text \<open>\<^verbatim>\<open>_make_points\<close>: the body of the inner loop, the inner loop and the outer loop.\<close>

definition make_point ::
  "('v, 'l, 'p) GridView \<Rightarrow> ('v, 'l, 'p) Entity \<Rightarrow> 'l LocalPoint
     \<Rightarrow> 'p list \<times> PointIndicesHelper \<Rightarrow> error + 'p list \<times> PointIndicesHelper" where
  "make_point grid_view element local_point st =
     (let points = fst st; point_indices = snd st;
          codim = lp_codim local_point;
          sub_entity = lp_subEntity local_point;
          sub_index = lp_index local_point
      in case mapper_subIndex grid_view element sub_entity codim of
           Inl e \<Rightarrow> Inl e
         | Inr global_index \<Rightarrow>
             if \<not> contains point_indices (codim, global_index, sub_index) then
               (let points' = points @ [ent_global element (lp_point local_point)]
                in Inr (points',
                        insert_key point_indices (codim, global_index, sub_index) (length points' - 1)))
             else Inr (points, point_indices))"

definition make_points_of_element ::
  "('v, 'l, 'p) GridView \<Rightarrow> (GeometryType \<times> 'l LocalPoint list) list \<Rightarrow> ('v, 'l, 'p) Entity
     \<Rightarrow> 'p list \<times> PointIndicesHelper \<Rightarrow> error + 'p list \<times> PointIndicesHelper" where
  "make_points_of_element grid_view local_points element st =
     (case local_points_at local_points (ent_type element) of
        Inl e \<Rightarrow> Inl e
      | Inr ps \<Rightarrow> foldE (make_point grid_view element) ps st)"

definition make_points ::
  "('v, 'l, 'p) GridView \<Rightarrow> (GeometryType \<times> 'l LocalPoint list) list
     \<Rightarrow> 'p list \<times> PointIndicesHelper \<Rightarrow> error + 'p list \<times> PointIndicesHelper" where
  "make_points grid_view local_points st =
     foldE (make_points_of_element grid_view local_points) (Cells_Dune grid_view) st"

text \<open>
  \<^verbatim>\<open>_set_connectivity\<close>. \<^verbatim>\<open>resize\<close> truncates or pads with zeros; the writes
  \<^verbatim>\<open>codim_points[mapped_sub_entity]\<close> and \<^verbatim>\<open>codim_points[mapped_sub_entity][local]\<close> are
  unchecked, so an index beyond the vector is undefined. The entries of the hash map are
  written to pairwise different positions, so their order does not matter. The two
  \<^verbatim>\<open>reserve\<close> calls change no contents. A cell and its topology id are appended when
  the cell is complete; an exception on the way leaves no mesh.
\<close>

definition resize :: "nat \<Rightarrow> nat list \<Rightarrow> nat list" where
  "resize n xs = take n xs @ replicate (n - length xs) 0"

definition write_index :: "nat \<times> nat \<Rightarrow> nat list \<Rightarrow> error + nat list" where
  "write_index entry sub_points =
     (let local = fst entry; global = snd entry
      in if local < length sub_points then Inr (sub_points[local := global]) else Inl Undefined)"

definition set_sub_entity ::
  "('v, 'l, 'p) GridView \<Rightarrow> PointIndicesHelper \<Rightarrow> ('v, 'l, 'p) Entity \<Rightarrow> nat \<Rightarrow> nat
     \<Rightarrow> nat list list \<Rightarrow> error + nat list list" where
  "set_sub_entity grid_view point_indices element codim sub_entity codim_points =
     (case dune_to_gfmt_sub_entity (ent_type element) sub_entity codim of
        Inl e \<Rightarrow> Inl e
      | Inr mapped_sub_entity \<Rightarrow>
          (case mapper_subIndex grid_view element sub_entity codim of
             Inl e \<Rightarrow> Inl e
           | Inr global_index \<Rightarrow>
               if contains point_indices (codim, global_index, 0) then
                 (case get_indices point_indices codim global_index of
                    Inl e \<Rightarrow> Inl e
                  | Inr indices \<Rightarrow>
                      if mapped_sub_entity < length codim_points then
                        (case foldE write_index indices
                                (resize (length indices) (codim_points ! mapped_sub_entity)) of
                           Inl e \<Rightarrow> Inl e
                         | Inr sub_points \<Rightarrow> Inr (codim_points[mapped_sub_entity := sub_points]))
                      else Inl Undefined)
               else Inr codim_points))"

definition set_codim ::
  "('v, 'l, 'p) GridView \<Rightarrow> PointIndicesHelper \<Rightarrow> ('v, 'l, 'p) Entity \<Rightarrow> nat
     \<Rightarrow> nat list \<Rightarrow> error + nat list" where
  "set_codim grid_view point_indices element codim cell_pts =
     (case foldE (set_sub_entity grid_view point_indices element codim)
                 [0 ..< ent_subEntities element codim]
                 (replicate (ent_subEntities element codim) []) of
        Inl e \<Rightarrow> Inl e
      | Inr codim_points \<Rightarrow> Inr (cell_pts @ concat codim_points))"

definition set_cell ::
  "('v, 'l, 'p) GridView \<Rightarrow> PointIndicesHelper \<Rightarrow> ('v, 'l, 'p) Entity
     \<Rightarrow> nat list list \<times> nat list \<Rightarrow> error + nat list list \<times> nat list" where
  "set_cell grid_view point_indices element st =
     (case foldE (set_codim grid_view point_indices element)
                 (rev [0 ..< Suc (gv_dimension grid_view)]) [] of
        Inl e \<Rightarrow> Inl e
      | Inr cell_pts \<Rightarrow> Inr (fst st @ [cell_pts], snd st @ [topologyId (ent_type element)]))"

definition set_connectivity ::
  "('v, 'l, 'p) GridView \<Rightarrow> PointIndicesHelper \<Rightarrow> error + nat list list \<times> nat list" where
  "set_connectivity grid_view point_indices =
     foldE (set_cell grid_view point_indices) (Cells_Dune grid_view) ([], [])"

text \<open>
  \<^verbatim>\<open>update\<close>: clear, take the grid view, rebuild the local points and the mesh. The
  constructor updates and then rejects an order below one.
\<close>

definition update ::
  "'l LocalPoints \<Rightarrow> ('v, 'l, 'p) GridView \<Rightarrow> ('v, 'l, 'p) DuneLagrangeMesh
     \<Rightarrow> error + ('v, 'l, 'p) DuneLagrangeMesh" where
  "update build grid_view mesh =
     (let local_points = update_local_points build (m_order mesh) grid_view
      in case make_points grid_view local_points ([], []) of
           Inl e \<Rightarrow> Inl e
         | Inr made \<Rightarrow>
             (case set_connectivity grid_view (snd made) of
                Inl e \<Rightarrow> Inl e
              | Inr conn \<Rightarrow>
                  Inr \<lparr>m_grid_view = grid_view, m_order = m_order mesh, m_points = fst made,
                       m_cells = fst conn, m_cell_topology_id = snd conn,
                       m_local_points = local_points\<rparr>))"

definition new_DuneLagrangeMesh ::
  "'l LocalPoints \<Rightarrow> ('v, 'l, 'p) GridView \<Rightarrow> nat \<Rightarrow> error + ('v, 'l, 'p) DuneLagrangeMesh" where
  "new_DuneLagrangeMesh build grid_view order =
     (case update build grid_view
             \<lparr>m_grid_view = grid_view, m_order = order, m_points = [], m_cells = [],
              m_cell_topology_id = [], m_local_points = []\<rparr> of
        Inl e \<Rightarrow> Inl e
      | Inr mesh \<Rightarrow> if order < 1 then Inl (InvalidState ''Order must be >= 1'') else Inr mesh)"

subsection \<open>The traits of the mesh\<close>

definition Points_Lagrange :: "('v, 'l, 'p) DuneLagrangeMesh \<Rightarrow> nat list" where
  "Points_Lagrange mesh = [0 ..< number_of_points mesh]"

definition Cells_Lagrange :: "('v, 'l, 'p) DuneLagrangeMesh \<Rightarrow> nat list" where
  "Cells_Lagrange mesh = [0 ..< number_of_cells mesh]"

definition NumberOfPoints_Lagrange :: "('v, 'l, 'p) DuneLagrangeMesh \<Rightarrow> nat" where
  "NumberOfPoints_Lagrange mesh = number_of_points mesh"

definition NumberOfCells_Lagrange :: "('v, 'l, 'p) DuneLagrangeMesh \<Rightarrow> nat" where
  "NumberOfCells_Lagrange mesh = number_of_cells mesh"

definition CellPoints_Lagrange :: "('v, 'l, 'p) DuneLagrangeMesh \<Rightarrow> nat \<Rightarrow> error + nat list" where
  "CellPoints_Lagrange mesh cell_index = cell_points mesh cell_index"

definition CellType_Lagrange :: "('v, 'l, 'p) DuneLagrangeMesh \<Rightarrow> nat \<Rightarrow> error + CellType" where
  "CellType_Lagrange mesh cell_index =
     (case geometry_type mesh cell_index of
        Inl e \<Rightarrow> Inl e
      | Inr gt \<Rightarrow> DuneLagrangeDetail_cell_type gt)"

definition PointId_Lagrange :: "('v, 'l, 'p) DuneLagrangeMesh \<Rightarrow> nat \<Rightarrow> nat" where
  "PointId_Lagrange mesh point_index = point_index"

section \<open>The parallel reference scenario (test_generic_parallel_writer.cpp)\<close>

text \<open>
  The arguments of the \<^verbatim>\<open>ImageGrid<2, double>\<close> that \<^verbatim>\<open>main\<close> builds: origin, side lengths
  and numbers of cells. The origin's coordinates are small integers converted to
  \<^verbatim>\<open>double\<close>, which represents them exactly.
\<close>

record ImageGrid =
  ig_origin :: "real \<times> real"
  ig_size :: "real \<times> real"
  ig_cells :: "nat \<times> nat"

definition main_grid :: "nat \<Rightarrow> nat \<Rightarrow> error + ImageGrid" where
  "main_grid comm_size rank =
     (if comm_size mod 2 \<noteq> 0 then Inl (ValueError ''Communicator size must be a multiple of 2'')
      else (let xoffset = real (rank mod 2); yoffset = real (rank div 2)
            in Inr \<lparr>ig_origin = (xoffset, yoffset), ig_size = (1, 1), ig_cells = (10, 15)\<rparr>))"

text \<open>
  Modelled from the spec: the image grid class is not among the sources. A piece covers the
  axis-aligned box that starts at its origin and has its side lengths, taken half-open so
  that boxes sharing a side do not overlap.
\<close>

definition in_piece :: "ImageGrid \<Rightarrow> real \<times> real \<Rightarrow> bool" where
  "in_piece grid pt =
     (fst (ig_origin grid) \<le> fst pt \<and> fst pt < fst (ig_origin grid) + fst (ig_size grid)
      \<and> snd (ig_origin grid) \<le> snd pt \<and> snd pt < snd (ig_origin grid) + snd (ig_size grid))"

text \<open>
  Modelled from the spec: the parallel writer is not among the sources. A parallel run
  emits one piece file per process, suffixed by the rank, and one summary file whose body
  lists a reference to each piece.
\<close>

definition piece_references :: "string \<Rightarrow> nat \<Rightarrow> (string \<times> nat) list" where
  "piece_references filename comm_size = map (\<lambda>rank. (filename, rank)) [0 ..< comm_size]"

section \<open>Example grids\<close>

text \<open>
  A two-dimensional grid view with two quadrilateral cells and six vertices, used to
  evaluate the traits. The first cell is interior; the partition type \<open>p\<close> of the second
  cell and of the last two vertices is a parameter, as is the size of the communicator.
\<close>

definition example_cell :: "PartitionType \<Rightarrow> nat \<Rightarrow> (nat, unit, nat) Entity" where
  "example_cell p i =
     \<lparr>ent_type = \<lparr>topologyId = 3, gt_dim = 2, gt_none = False\<rparr>, ent_partition = p,
      ent_level = 0, ent_index = i,
      ent_subEntities = (\<lambda>codim. if codim = 0 then 1 else 4),
      ent_subEntity = (\<lambda>k. 4 * i + k), ent_subIndex = (\<lambda>codim k. 4 * i + k),
      ent_global = (\<lambda>l. 0)\<rparr>"

definition example_vertex :: "PartitionType \<Rightarrow> nat \<Rightarrow> (nat, unit, nat) Entity" where
  "example_vertex p i =
     \<lparr>ent_type = \<lparr>topologyId = 0, gt_dim = 0, gt_none = False\<rparr>, ent_partition = p,
      ent_level = 0, ent_index = i,
      ent_subEntities = (\<lambda>codim. if codim = 0 then 1 else 0),
      ent_subEntity = (\<lambda>k. i), ent_subIndex = (\<lambda>codim k. i),
      ent_global = (\<lambda>l. 0)\<rparr>"

definition example_grid_view :: "nat \<Rightarrow> PartitionType \<Rightarrow> (nat, unit, nat) GridView" where
  "example_grid_view n p =
     \<lparr>gv_comm_size = n, gv_dimension = 2,
      gv_entities = (\<lambda>codim.
         if codim = 0 then [example_cell InteriorEntity 0, example_cell p 1]
         else if codim = 2 then
           [example_vertex InteriorEntity 0, example_vertex InteriorEntity 1,
            example_vertex BorderEntity 2, example_vertex BorderEntity 3,
            example_vertex p 4, example_vertex p 5]
         else [])\<rparr>"

text \<open>The point set of order one on a quadrilateral: one point on each corner.\<close>

definition example_local_points :: "unit LocalPoints" where
  "example_local_points order gt =
     map (\<lambda>k. \<lparr>lp_codim = 2, lp_subEntity = k, lp_index = 0, lp_point = ()\<rparr>) [0, 1, 2, 3]"

definition example_mesh0 :: "(nat, unit, nat) DuneLagrangeMesh" where
  "example_mesh0 =
     \<lparr>m_grid_view = example_grid_view 1 OverlapEntity, m_order = 1, m_points = [], m_cells = [],
      m_cell_topology_id = [], m_local_points = []\<rparr>"

definition example_mesh :: "(nat, unit, nat) DuneLagrangeMesh" where
  "example_mesh =
     projr (update example_local_points (example_grid_view 1 OverlapEntity) example_mesh0)"

text \<open>
  One level of a YaspGrid whose interior cells have the indices 0 to \<open>m\<close> in direction 0 and
  0 to 14 in direction 1, and a view of it. With \<open>m = 9\<close> it has 10 by 15 interior cells.
\<close>

definition example_level :: "32 word \<Rightarrow> int YGridLevel" where
  "example_level m =
     \<lparr>interior_min = (\<lambda>i. 0), interior_max = (\<lambda>i. if i = 0 then m else 14),
      coordinate = (\<lambda>direction i. sint i)\<rparr>"

definition example_yasp_view :: "32 word \<Rightarrow> (nat, unit, nat, int) YaspGridView" where
  "example_yasp_view m =
     \<lparr>yasp_view = example_grid_view 1 OverlapEntity, yasp_levels = [example_level m]\<rparr>"

text \<open>
  A two-dimensional triangulation of three points: the infinite vertex 0, the finite
  vertices 1 to 3, the finite face 0 and the three infinite faces 1 to 3.
\<close>

definition example_triangulation :: "(nat, nat) Triangulation" where
  "example_triangulation =
     \<lparr>tr_concept = CGALGrid2D, tr_all_vertices = [0, 1, 2, 3], tr_all_faces = [0, 1, 2, 3],
      tr_all_cells = [], tr_is_infinite_vertex = (\<lambda>v. v = 0), tr_is_infinite = (\<lambda>f. f \<noteq> 0),
      Handle_hash_function = (\<lambda>v. 1000 + v)\<rparr>"

text \<open>The geometry type of a pyramid, which the traits do not know.\<close>

definition pyramid :: GeometryType where
  "pyramid = \<lparr>topologyId = 3, gt_dim = 3, gt_none = False\<rparr>"

definition quadrilateral_type :: GeometryType where
  "quadrilateral_type = \<lparr>topologyId = 3, gt_dim = 2, gt_none = False\<rparr>"

section \<open>Properties of the attribute names\<close>

lemma digit_char_cases:
  "d < 10 \<Longrightarrow> d = 0 \<or> d = 1 \<or> d = 2 \<or> d = 3 \<or> d = 4 \<or> d = 5 \<or> d = 6 \<or> d = 7 \<or> d = 8 \<or> d = (9::nat)"
  by arith

lemma digit_value_digit_char: "d < 10 \<Longrightarrow> digit_value (digit_char d) = d"
  using digit_char_cases [of d] by (auto simp: digit_value_def digit_char_def)

lemma is_digit_digit_char: "d < 10 \<Longrightarrow> is_digit (digit_char d)"
  using digit_char_cases [of d] by (auto simp: is_digit_def digit_char_def)

lemma decimal_value_snoc: "decimal_value (s @ [c]) = 10 * decimal_value s + digit_value c"
  by (simp add: decimal_value_def)

lemma decimal_value_to_string: "decimal_value (to_string n) = n"
proof (induction n rule: to_string.induct)
  case (1 n)
  show ?case
  proof (cases "n < 10")
    case True
    then show ?thesis
      by (simp add: to_string.simps [of n] decimal_value_def digit_value_digit_char)
  next
    case False
    then have "decimal_value (to_string n) = 10 * (n div 10) + n mod 10"
      using "1.IH" by (simp add: to_string.simps [of n] decimal_value_snoc digit_value_digit_char)
    then show ?thesis by simp
  qed
qed

lemma to_string_digits: "\<forall>c \<in> set (to_string n). is_digit c"
proof (induction n rule: to_string.induct)
  case (1 n)
  show ?case
  proof (cases "n < 10")
    case True
    then show ?thesis by (simp add: to_string.simps [of n] is_digit_digit_char)
  next
    case False
    then show ?thesis
      using "1.IH" by (simp add: to_string.simps [of n] is_digit_digit_char)
  qed
qed

text \<open>
  C1. Ascii with appended data and RawBinary with inlined data are rejected with a
  \<open>ValueError\<close> whose message names the data format and the encoder; the four other
  combinations return the name of the data format. The function is pure: it writes nothing,
  so the error is raised before any byte is written.
\<close>

theorem data_format_name_legality:
  "data_format_name Ascii Appended = Inl (ValueError
     (''VTK'' @ [CHR 0x27] @ ''s '' @ [CHR 0x27] @ ''appended'' @ [CHR 0x27]
      @ '' data format cannot be used with ascii encoding. Please choose ''
      @ [CHR 0x27] @ ''GridFormat::VTK::inlined'' @ [CHR 0x27] @ '' or a different encoder.''))
   \<and> data_format_name RawBinary Inlined = Inl (ValueError
     (''VTK'' @ [CHR 0x27] @ ''s '' @ [CHR 0x27] @ ''inlined'' @ [CHR 0x27]
      @ '' data format cannot be used with raw encoding. Please choose ''
      @ [CHR 0x27] @ ''GridFormat::VTK::appended'' @ [CHR 0x27] @ '' or a different encoder.''))
   \<and> data_format_name Ascii Inlined = Inr ''ascii''
   \<and> data_format_name Base64 Inlined = Inr ''binary''
   \<and> data_format_name Base64 Appended = Inr ''appended''
   \<and> data_format_name RawBinary Appended = Inr ''appended''"
  by (simp add: data_format_name_fallback_def)

text \<open>
  C8. The attribute name of a precision is the prefix \<open>Int\<close> (signed integral), \<open>UInt\<close>
  (unsigned integral) or \<open>Float\<close> (not integral) followed by the decimal rendering of
  eight times the size in bytes: a string of decimal digits whose value is that product.
  The size is that of a scalar type, far below the \<open>2 ^ 61\<close> bytes at which the product
  would wrap.
\<close>

theorem attribute_name_precision:
  assumes "unat (size_in_bytes prec) < 2 ^ 61"
  shows "attribute_name prec =
           (if is_integral prec then (if is_signed prec then ''Int'' else ''UInt'') else ''Float'')
           @ to_string (8 * unat (size_in_bytes prec))
         \<and> decimal_value (to_string (8 * unat (size_in_bytes prec))) = 8 * unat (size_in_bytes prec)
         \<and> list_all is_digit (to_string (8 * unat (size_in_bytes prec)))"
proof -
  have "unat (size_in_bytes prec * 8) = (unat (size_in_bytes prec) * 8) mod 2 ^ 64"
    by (simp add: unat_word_ariths)
  also have "\<dots> = 8 * unat (size_in_bytes prec)"
    using assms by simp
  finally have "unat (size_in_bytes prec * 8) = 8 * unat (size_in_bytes prec)" .
  then show ?thesis
    using to_string_digits [of "8 * unat (size_in_bytes prec)"]
    by (simp add: attribute_name_def decimal_value_to_string list_all_iff)
qed

theorem attribute_name_precision_witness:
  "unat (4 :: 64 word) < 2 ^ 61
   \<and> attribute_name \<lparr>is_integral = True, is_signed = False, size_in_bytes = 4\<rparr> = ''UInt32''
   \<and> decimal_value ''32'' = 32
   \<and> list_all is_digit ''32''"
proof -
  have h: "unat (size_in_bytes \<lparr>is_integral = True, is_signed = False, size_in_bytes = 4\<rparr>) < 2 ^ 61"
    by simp
  have t: "to_string 32 = ''32''"
    by (simp add: to_string.simps [of 32] to_string.simps [of 3] digit_char_def)
  show ?thesis
    using attribute_name_precision [OF h] by (simp add: t)
qed

section \<open>Properties of the Dune traits\<close>

lemma mapE_total: "(\<And>x. x \<in> set xs \<Longrightarrow> f x = Inr (g x)) \<Longrightarrow> mapE f xs = Inr (map g xs)"
  by (induction xs) auto

lemma upt_0_4: "[0 ..< 4] = [0, 1, 2, 3]"
  by (simp add: upt_rec)

lemma upt_0_8: "[0 ..< 8] = [0, 1, 2, 3, 4, 5, 6, 7]"
  by (simp add: upt_rec)

lemma length_filter_eq_iff: "(length (filter P xs) = length xs) = (\<forall>x \<in> set xs. P x)"
proof (induction xs)
  case Nil
  then show ?case by simp
next
  case (Cons x xs)
  have "length (filter P xs) \<le> length xs" by simp
  then have "length (filter P xs) \<noteq> Suc (length xs)" by arith
  with Cons show ?case by auto
qed

text \<open>
  What the counting traits return, for every grid: the length of the sequence for CGAL
  triangulations, for the Lagrange mesh and for a Dune grid view on several processes; on
  one process the number of all entities of the view, which is the length of the sequence
  exactly when no entity lies outside the partition the sequence enumerates.
\<close>

lemma number_of_entities:
  "NumberOfPoints_CGAL grid = length (Points_CGAL grid)
   \<and> NumberOfCells_CGAL grid = length (Cells_CGAL grid)
   \<and> NumberOfPoints_Lagrange mesh = length (Points_Lagrange mesh)
   \<and> NumberOfCells_Lagrange mesh = length (Cells_Lagrange mesh)
   \<and> (gv_comm_size grid_view \<noteq> 1 \<longrightarrow>
        NumberOfPoints_Dune grid_view = length (Points_Dune grid_view)
        \<and> NumberOfCells_Dune grid_view = length (Cells_Dune grid_view))
   \<and> (gv_comm_size grid_view = 1 \<longrightarrow>
        NumberOfPoints_Dune grid_view = gv_size grid_view (gv_dimension grid_view)
        \<and> NumberOfCells_Dune grid_view = gv_size grid_view 0
        \<and> ((NumberOfPoints_Dune grid_view = length (Points_Dune grid_view))
             = (\<forall>v \<in> set (gv_entities grid_view (gv_dimension grid_view)).
                  ent_partition v = InteriorEntity \<or> ent_partition v = BorderEntity))
        \<and> ((NumberOfCells_Dune grid_view = length (Cells_Dune grid_view))
             = (\<forall>c \<in> set (gv_entities grid_view 0). ent_partition c = InteriorEntity)))"
proof -
  have cgal: "NumberOfPoints_CGAL grid = length (Points_CGAL grid)
      \<and> NumberOfCells_CGAL grid = length (Cells_CGAL grid)"
    by (simp add: NumberOfPoints_CGAL_def Points_CGAL_def number_of_vertices_def
        finite_vertex_handles_def NumberOfCells_CGAL_def Cells_CGAL_def number_of_faces_def
        number_of_finite_cells_def finite_face_handles_def finite_cell_handles_def
        split: CGALGrid.split)
  have lag: "NumberOfPoints_Lagrange mesh = length (Points_Lagrange mesh)
      \<and> NumberOfCells_Lagrange mesh = length (Cells_Lagrange mesh)"
    by (simp add: NumberOfPoints_Lagrange_def Points_Lagrange_def NumberOfCells_Lagrange_def
        Cells_Lagrange_def)
  have par: "gv_comm_size grid_view \<noteq> 1 \<longrightarrow>
        NumberOfPoints_Dune grid_view = length (Points_Dune grid_view)
        \<and> NumberOfCells_Dune grid_view = length (Cells_Dune grid_view)"
    by (simp add: NumberOfPoints_Dune_def NumberOfCells_Dune_def)
  have seq: "gv_comm_size grid_view = 1 \<longrightarrow>
        NumberOfPoints_Dune grid_view = gv_size grid_view (gv_dimension grid_view)
        \<and> NumberOfCells_Dune grid_view = gv_size grid_view 0
        \<and> ((NumberOfPoints_Dune grid_view = length (Points_Dune grid_view))
             = (\<forall>v \<in> set (gv_entities grid_view (gv_dimension grid_view)).
                  ent_partition v = InteriorEntity \<or> ent_partition v = BorderEntity))
        \<and> ((NumberOfCells_Dune grid_view = length (Cells_Dune grid_view))
             = (\<forall>c \<in> set (gv_entities grid_view 0). ent_partition c = InteriorEntity))"
    using length_filter_eq_iff [of "\<lambda>e. in_partition InteriorBorder_Partition (ent_partition e)"
        "gv_entities grid_view (gv_dimension grid_view)"]
      length_filter_eq_iff [of "\<lambda>e. in_partition Interior_Partition (ent_partition e)"
        "gv_entities grid_view 0"]
    by (simp add: NumberOfPoints_Dune_def NumberOfCells_Dune_def Points_Dune_def Cells_Dune_def
        gv_size_def gv_range_def eq_commute)
  from cgal lag par seq show ?thesis by blast
qed

text \<open>
  C2. On one process the Dune traits return \<^verbatim>\<open>grid_view.size(codim)\<close>, the number of all
  entities of the view. For a view on one process that holds an overlap cell and two
  overlap vertices (as a periodic YaspGrid has them), the counts are 2 cells and 6 points,
  while the sequences enumerate 1 cell and 4 points.
\<close>

theorem NumberOfCells_Dune_single_process_overlap:
  "gv_comm_size (example_grid_view 1 OverlapEntity) = 1
   \<and> NumberOfCells_Dune (example_grid_view 1 OverlapEntity) = 2
   \<and> length (Cells_Dune (example_grid_view 1 OverlapEntity)) = 1
   \<and> NumberOfPoints_Dune (example_grid_view 1 OverlapEntity) = 6
   \<and> length (Points_Dune (example_grid_view 1 OverlapEntity)) = 4
   \<and> NumberOfCells_Dune (example_grid_view 1 OverlapEntity)
       \<noteq> length (Cells_Dune (example_grid_view 1 OverlapEntity))
   \<and> NumberOfPoints_Dune (example_grid_view 1 OverlapEntity)
       \<noteq> length (Points_Dune (example_grid_view 1 OverlapEntity))"
  by (simp add: NumberOfCells_Dune_def NumberOfPoints_Dune_def Cells_Dune_def Points_Dune_def
      gv_size_def gv_range_def example_grid_view_def example_cell_def example_vertex_def)

text \<open>
  C3. The cell points of a Dune element are its corners in the order of the corner map:
  for a quadrilateral (with its four corners) the sub-entities 0, 1, 3, 2, for a
  hexahedron (with its eight corners) the sub-entities 0, 1, 3, 2, 4, 5, 7, 6, and for
  every other geometry type the sub-entities in Dune's own order.
\<close>

theorem CellPoints_Dune_corner_order:
  "(isQuadrilateral (ent_type element) \<and> ent_subEntities element (gv_dimension grid_view) = 4 \<longrightarrow>
      CellPoints_Dune grid_view element =
        Inr (map (ent_subEntity element) [0, 1, 3, 2]))
   \<and> (isHexahedron (ent_type element) \<and> ent_subEntities element (gv_dimension grid_view) = 8 \<longrightarrow>
      CellPoints_Dune grid_view element =
        Inr (map (ent_subEntity element) [0, 1, 3, 2, 4, 5, 7, 6]))
   \<and> (\<not> isQuadrilateral (ent_type element) \<and> \<not> isHexahedron (ent_type element) \<longrightarrow>
      CellPoints_Dune grid_view element =
        Inr (map (ent_subEntity element) [0 ..< ent_subEntities element (gv_dimension grid_view)]))
   \<and> (isQuadrilateral gt \<and> i < 4 \<longrightarrow> map_corner_index gt i = Inr ([0, 1, 3, 2] ! i))
   \<and> (isHexahedron gt \<and> i < 8 \<longrightarrow> map_corner_index gt i = Inr ([0, 1, 3, 2, 4, 5, 7, 6] ! i))
   \<and> (\<not> isQuadrilateral gt \<and> \<not> isHexahedron gt \<longrightarrow> map_corner_index gt i = Inr i)"
proof (intro conjI impI)
  assume "isQuadrilateral (ent_type element) \<and> ent_subEntities element (gv_dimension grid_view) = 4"
  then show "CellPoints_Dune grid_view element = Inr (map (ent_subEntity element) [0, 1, 3, 2])"
    by (simp add: CellPoints_Dune_def upt_0_4 map_corner_index_def subEntity_def)
next
  assume h: "isHexahedron (ent_type element) \<and> ent_subEntities element (gv_dimension grid_view) = 8"
  then have "\<not> isQuadrilateral (ent_type element)"
    by (auto simp: isQuadrilateral_def isHexahedron_def)
  with h show "CellPoints_Dune grid_view element =
      Inr (map (ent_subEntity element) [0, 1, 3, 2, 4, 5, 7, 6])"
    by (simp add: CellPoints_Dune_def upt_0_8 map_corner_index_def subEntity_def)
next
  assume h: "\<not> isQuadrilateral (ent_type element) \<and> \<not> isHexahedron (ent_type element)"
  show "CellPoints_Dune grid_view element =
        Inr (map (ent_subEntity element) [0 ..< ent_subEntities element (gv_dimension grid_view)])"
    unfolding CellPoints_Dune_def Let_def
    by (rule mapE_total) (use h in \<open>simp add: map_corner_index_def subEntity_def\<close>)
next
  assume "isQuadrilateral gt \<and> i < 4"
  then show "map_corner_index gt i = Inr ([0, 1, 3, 2] ! i)"
    by (simp add: map_corner_index_def)
next
  assume h: "isHexahedron gt \<and> i < 8"
  then have "\<not> isQuadrilateral gt"
    by (auto simp: isQuadrilateral_def isHexahedron_def)
  with h show "map_corner_index gt i = Inr ([0, 1, 3, 2, 4, 5, 7, 6] ! i)"
    by (simp add: map_corner_index_def)
next
  assume "\<not> isQuadrilateral gt \<and> \<not> isHexahedron gt"
  then show "map_corner_index gt i = Inr i"
    by (simp add: map_corner_index_def)
qed

theorem CellPoints_Dune_corner_order_witness:
  "isQuadrilateral (ent_type (example_cell InteriorEntity 0))
   \<and> ent_subEntities (example_cell InteriorEntity 0) (gv_dimension (example_grid_view 1 OverlapEntity)) = 4
   \<and> CellPoints_Dune (example_grid_view 1 OverlapEntity) (example_cell InteriorEntity 0)
       = Inr [0, 1, 3, 2]
   \<and> isQuadrilateral quadrilateral_type
   \<and> map_corner_index quadrilateral_type 2 = Inr 3
   \<and> \<not> isQuadrilateral pyramid \<and> \<not> isHexahedron pyramid
   \<and> map_corner_index pyramid 2 = Inr 2"
proof -
  have h: "isQuadrilateral (ent_type (example_cell InteriorEntity 0))
      \<and> ent_subEntities (example_cell InteriorEntity 0) (gv_dimension (example_grid_view 1 OverlapEntity)) = 4"
    by (simp add: example_cell_def example_grid_view_def isQuadrilateral_def)
  have q: "isQuadrilateral quadrilateral_type \<and> (2::nat) < 4"
    by (simp add: quadrilateral_type_def isQuadrilateral_def)
  have p: "\<not> isQuadrilateral pyramid \<and> \<not> isHexahedron pyramid"
    by (simp add: pyramid_def isQuadrilateral_def isHexahedron_def)
  have e: "map (ent_subEntity (example_cell InteriorEntity 0)) [0, 1, 3, 2] = [0, 1, 3, 2]"
    by (simp add: example_cell_def)
  show ?thesis
    using CellPoints_Dune_corner_order
      [of "example_cell InteriorEntity 0" "example_grid_view 1 OverlapEntity" quadrilateral_type 2]
      CellPoints_Dune_corner_order
      [of "example_cell InteriorEntity 0" "example_grid_view 1 OverlapEntity" pyramid 2]
      h q p e
    by simp
qed

text \<open>
  Point ids. The ids of the points of a Lagrange mesh are the point indices themselves, so
  they are pairwise different. The ids of a Dune grid view and of a CGAL triangulation are
  what the library's index set and handle hash return for the vertex; the traits pass them
  on unchanged.
\<close>

lemma PointId_Lagrange_distinct:
  "distinct (map (PointId_Lagrange mesh) (Points_Lagrange mesh))
   \<and> map (PointId_Lagrange mesh) (Points_Lagrange mesh) = [0 ..< number_of_points mesh]"
  by (simp add: PointId_Lagrange_def Points_Lagrange_def map_idI)

lemma PointId_library:
  "PointId_Dune grid_view v = ent_index v \<and> PointId_CGAL grid vh = Handle_hash_function grid vh"
  by (simp add: PointId_Dune_def PointId_CGAL_def)

text \<open>
  C5. The two cell type functions return the tag of each geometry type they list, and
  raise \<open>NotImplemented\<close> for a geometry type that is none of those; the traits of the
  grid view and of the Lagrange mesh apply them to the type of the cell.
\<close>

theorem cell_type_known_or_not_implemented:
  "(isVertex gt \<longrightarrow> DuneDetail_cell_type gt = Inr vertex)
   \<and> (isLine gt \<longrightarrow> DuneDetail_cell_type gt = Inr segment
                   \<and> DuneLagrangeDetail_cell_type gt = Inr lagrange_segment)
   \<and> (isTriangle gt \<longrightarrow> DuneDetail_cell_type gt = Inr triangle
                   \<and> DuneLagrangeDetail_cell_type gt = Inr lagrange_triangle)
   \<and> (isQuadrilateral gt \<longrightarrow> DuneDetail_cell_type gt = Inr quadrilateral
                   \<and> DuneLagrangeDetail_cell_type gt = Inr lagrange_quadrilateral)
   \<and> (isTetrahedron gt \<longrightarrow> DuneDetail_cell_type gt = Inr tetrahedron
                   \<and> DuneLagrangeDetail_cell_type gt = Inr lagrange_tetrahedron)
   \<and> (isHexahedron gt \<longrightarrow> DuneDetail_cell_type gt = Inr hexahedron
                   \<and> DuneLagrangeDetail_cell_type gt = Inr lagrange_hexahedron)
   \<and> (\<not> isVertex gt \<and> \<not> isLine gt \<and> \<not> isTriangle gt \<and> \<not> isQuadrilateral gt
        \<and> \<not> isTetrahedron gt \<and> \<not> isHexahedron gt
      \<longrightarrow> DuneDetail_cell_type gt = Inl (NotImplemented ''Unknown Dune::GeometryType''))
   \<and> (\<not> isLine gt \<and> \<not> isTriangle gt \<and> \<not> isQuadrilateral gt
        \<and> \<not> isTetrahedron gt \<and> \<not> isHexahedron gt
      \<longrightarrow> DuneLagrangeDetail_cell_type gt = Inl (NotImplemented ''Unsupported Dune::GeometryType''))
   \<and> CellType_Dune grid_view element = DuneDetail_cell_type (ent_type element)
   \<and> (cell_index < length (m_cell_topology_id mesh) \<longrightarrow>
        CellType_Lagrange mesh cell_index =
          DuneLagrangeDetail_cell_type
            \<lparr>topologyId = m_cell_topology_id mesh ! cell_index,
             gt_dim = gv_dimension (m_grid_view mesh), gt_none = False\<rparr>)"
  by (auto simp: DuneDetail_cell_type_def DuneLagrangeDetail_cell_type_def CellType_Dune_def
      CellType_Lagrange_def geometry_type_def
      isQuadrilateral_def isVertex_def isLine_def isTriangle_def isTetrahedron_def isHexahedron_def)

theorem cell_type_known_or_not_implemented_witness:
  "\<not> isVertex pyramid \<and> \<not> isLine pyramid \<and> \<not> isTriangle pyramid \<and> \<not> isQuadrilateral pyramid
   \<and> \<not> isTetrahedron pyramid \<and> \<not> isHexahedron pyramid
   \<and> DuneDetail_cell_type pyramid = Inl (NotImplemented ''Unknown Dune::GeometryType'')
   \<and> DuneLagrangeDetail_cell_type pyramid = Inl (NotImplemented ''Unsupported Dune::GeometryType'')
   \<and> isQuadrilateral quadrilateral_type
   \<and> DuneDetail_cell_type quadrilateral_type = Inr quadrilateral
   \<and> DuneLagrangeDetail_cell_type quadrilateral_type = Inr lagrange_quadrilateral"
proof -
  have p: "\<not> isVertex pyramid \<and> \<not> isLine pyramid \<and> \<not> isTriangle pyramid
      \<and> \<not> isQuadrilateral pyramid \<and> \<not> isTetrahedron pyramid \<and> \<not> isHexahedron pyramid"
    by (simp add: pyramid_def isVertex_def isLine_def isTriangle_def isQuadrilateral_def
        isTetrahedron_def isHexahedron_def)
  have q: "isQuadrilateral quadrilateral_type"
    by (simp add: quadrilateral_type_def isQuadrilateral_def)
  show ?thesis
    using cell_type_known_or_not_implemented [of pyramid]
      cell_type_known_or_not_implemented [of quadrilateral_type] p q
    by blast
qed

text \<open>
  C6. The sequences enumerate active entities only, and all of them: the cells of a Dune
  grid view are exactly its interior elements and its points exactly its interior and
  border vertices, so no overlap, front or ghost entity is among them; the points and
  cells of a CGAL triangulation are finite vertices and finite faces or cells.
\<close>

theorem active_entities_only:
  "(\<forall>c \<in> set (Cells_Dune grid_view).
       ent_partition c = InteriorEntity \<and> c \<in> set (gv_entities grid_view 0))
   \<and> (\<forall>v \<in> set (Points_Dune grid_view).
       (ent_partition v = InteriorEntity \<or> ent_partition v = BorderEntity)
       \<and> v \<in> set (gv_entities grid_view (gv_dimension grid_view)))
   \<and> (\<forall>c \<in> set (gv_entities grid_view 0).
       ent_partition c = InteriorEntity \<longrightarrow> c \<in> set (Cells_Dune grid_view))
   \<and> (\<forall>v \<in> set (gv_entities grid_view (gv_dimension grid_view)).
       ent_partition v = InteriorEntity \<or> ent_partition v = BorderEntity
       \<longrightarrow> v \<in> set (Points_Dune grid_view))
   \<and> (\<forall>v \<in> set (Points_CGAL grid).
       \<not> tr_is_infinite_vertex grid v \<and> v \<in> set (tr_all_vertices grid))
   \<and> (\<forall>c \<in> set (Cells_CGAL grid).
       \<not> tr_is_infinite grid c
       \<and> c \<in> set (case tr_concept grid of CGALGrid2D \<Rightarrow> tr_all_faces grid
                                         | CGALGrid3D \<Rightarrow> tr_all_cells grid))"
  by (auto simp: Cells_Dune_def Points_Dune_def gv_range_def Points_CGAL_def Cells_CGAL_def
      finite_vertex_handles_def finite_face_handles_def finite_cell_handles_def
      split: CGALGrid.splits)

theorem active_entities_only_witness:
  "example_cell InteriorEntity 0 \<in> set (Cells_Dune (example_grid_view 2 GhostEntity))
   \<and> ent_partition (example_cell InteriorEntity 0) = InteriorEntity
   \<and> example_vertex BorderEntity 2 \<in> set (Points_Dune (example_grid_view 2 GhostEntity))
   \<and> (ent_partition (example_vertex BorderEntity 2) = InteriorEntity
        \<or> ent_partition (example_vertex BorderEntity 2) = BorderEntity)
   \<and> example_cell GhostEntity 1 \<in> set (gv_entities (example_grid_view 2 GhostEntity) 0)
   \<and> example_cell GhostEntity 1 \<notin> set (Cells_Dune (example_grid_view 2 GhostEntity))
   \<and> (1::nat) \<in> set (Points_CGAL example_triangulation)
   \<and> \<not> tr_is_infinite_vertex example_triangulation 1
   \<and> (0::nat) \<in> set (Cells_CGAL example_triangulation)
   \<and> \<not> tr_is_infinite example_triangulation 0"
proof -
  have c: "example_cell InteriorEntity 0 \<in> set (Cells_Dune (example_grid_view 2 GhostEntity))"
    by (simp add: Cells_Dune_def gv_range_def example_grid_view_def example_cell_def)
  have v: "example_vertex BorderEntity 2 \<in> set (Points_Dune (example_grid_view 2 GhostEntity))"
    by (simp add: Points_Dune_def gv_range_def example_grid_view_def example_vertex_def)
  have g: "example_cell GhostEntity 1 \<in> set (gv_entities (example_grid_view 2 GhostEntity) 0)"
    by (simp add: example_grid_view_def)
  have gp: "ent_partition (example_cell GhostEntity 1) \<noteq> InteriorEntity"
    by (simp add: example_cell_def)
  have p: "(1::nat) \<in> set (Points_CGAL example_triangulation)"
    by (simp add: Points_CGAL_def finite_vertex_handles_def example_triangulation_def)
  have f: "(0::nat) \<in> set (Cells_CGAL example_triangulation)"
    by (simp add: Cells_CGAL_def finite_face_handles_def example_triangulation_def)
  show ?thesis
    using active_entities_only [of "example_grid_view 2 GhostEntity" example_triangulation]
      c v g gp p f
    by blast
qed

section \<open>Properties of the YaspGrid traits\<close>

text \<open>A difference plus a constant, computed in \<^verbatim>\<open>int\<close>, is exact when the result fits.\<close>

lemma sint_diff_plus:
  fixes a b c :: "32 word"
  assumes "- (2 ^ 31) \<le> sint a - sint b + sint c" and "sint a - sint b + sint c < 2 ^ 31"
  shows "sint (a - b + c) = sint a - sint b + sint c"
proof -
  have c: "signed_take_bit 31 (sint c) = sint c"
    using sint_ge [of c] sint_lt [of c] by (simp add: signed_take_bit_int_eq_self)
  have "sint (a - b + c) = signed_take_bit 31 (sint (a - b) + sint c)"
    by (simp add: sint_word_ariths)
  also have "sint (a - b) = signed_take_bit 31 (sint a - sint b)"
    by (simp add: sint_word_ariths)
  also have "signed_take_bit 31 (signed_take_bit 31 (sint a - sint b) + sint c)
      = signed_take_bit 31 (sint a - sint b + sint c)"
    using signed_take_bit_add [of 31 "sint a - sint b" "sint c"] c by simp
  also have "\<dots> = sint a - sint b + sint c"
    using assms by (simp add: signed_take_bit_int_eq_self)
  finally show ?thesis .
qed

lemma yasp_example_level: "yasp_grid_level (example_yasp_view m) = Inr (example_level m)"
proof -
  have "Cells_Dune (example_grid_view 1 OverlapEntity) = [example_cell InteriorEntity 0]"
    by (simp add: Cells_Dune_def gv_range_def example_grid_view_def example_cell_def)
  then show ?thesis
    by (simp add: yasp_grid_level_def example_yasp_view_def example_cell_def)
qed

text \<open>
  At the ends of the \<^verbatim>\<open>int\<close> range the counts wrap: with the cell indices 0 to
  \<open>2 ^ 31 - 2\<close> the number of ordinates is negative and the vector is refused, and with the
  cell indices 0 to \<open>2 ^ 31 - 1\<close> the extent is the conversion of \<open>- 2 ^ 31\<close>.
\<close>

lemma Ordinates_Yasp_overflow:
  "Ordinates_Yasp (example_yasp_view 2147483646) 0 = Inl LengthError"
  by (simp add: Ordinates_Yasp_def yasp_example_level example_level_def)

lemma Extents_Yasp_overflow:
  "Extents_Yasp (example_yasp_view 2147483647) = Inr [18446744071562067968, 15]"
proof -
  have d: "gv_dimension (yasp_view (example_yasp_view 2147483647)) = 2"
    by (simp add: example_yasp_view_def example_grid_view_def)
  have u: "[0 ..< 2] = [0, 1]"
    by (simp add: upt_rec)
  show ?thesis
    by (simp add: Extents_Yasp_def yasp_example_level d u example_level_def size_t_of_int_def)
qed

lemma sint_plus_nat:
  fixes a :: "32 word"
  assumes "- (2 ^ 31) \<le> sint a + int i" and "sint a + int i < 2 ^ 31"
  shows "sint (a + of_nat i) = sint a + int i"
proof -
  have "sint (a + of_nat i) = signed_take_bit 31 (sint a + sint (of_nat i :: 32 word))"
    by (simp add: sint_word_ariths)
  also have "sint (of_nat i :: 32 word) = signed_take_bit 31 (int i)"
  proof -
    have "(of_nat i :: 32 word) = word_of_int (int i)" by simp
    then show ?thesis by (simp only: sint_sbintrunc') simp
  qed
  also have "signed_take_bit 31 (sint a + signed_take_bit 31 (int i))
      = signed_take_bit 31 (sint a + int i)"
    using signed_take_bit_add [of 31 "sint a" "int i"]
      sint_ge [of a] sint_lt [of a] by (simp add: signed_take_bit_int_eq_self)
  also have "\<dots> = sint a + int i"
    using assms by (simp add: signed_take_bit_int_eq_self)
  finally show ?thesis .
qed

text \<open>
  C9. For a YaspGrid view with at least one interior cell, in every direction in which the
  interior cell grid has a non-negative number of cells and neither the number of point
  ordinates (cells plus one) nor the index of the last ordinate (\<open>max + 1\<close>) leaves the
  range of a C++ \<^verbatim>\<open>int\<close>, both traits return, the extent is the number of cells, the
  number of ordinates is the extent plus one, and the \<open>i\<close>-th ordinate is the coordinate
  at the index \<open>min + i\<close>, computed without overflow.
\<close>

theorem yasp_ordinates_extents:
  assumes "yasp_grid_level grid_view = Inr grid_level"
    and "direction < gv_dimension (yasp_view grid_view)"
    and "0 \<le> sint (interior_max grid_level direction) - sint (interior_min grid_level direction) + 1"
    and "sint (interior_max grid_level direction) - sint (interior_min grid_level direction) + 2
         < 2 ^ 31"
    and "sint (interior_max grid_level direction) + 1 < 2 ^ 31"
  shows "\<exists>extents ordinates.
           Extents_Yasp grid_view = Inr extents
           \<and> Ordinates_Yasp grid_view direction = Inr ordinates
           \<and> length extents = gv_dimension (yasp_view grid_view)
           \<and> int (extents ! direction)
               = sint (interior_max grid_level direction) - sint (interior_min grid_level direction) + 1
           \<and> length ordinates = extents ! direction + 1
           \<and> (\<forall>i < length ordinates.
                 ordinates ! i
                   = coordinate grid_level direction (interior_min grid_level direction + of_nat i)
                 \<and> sint (interior_min grid_level direction + of_nat i)
                   = sint (interior_min grid_level direction) + int i)"
proof -
  let ?a = "interior_max grid_level direction"
  let ?b = "interior_min grid_level direction"
  let ?n = "sint ?a - sint ?b + 1"
  let ?ordinates = "map (\<lambda>i. coordinate grid_level direction (?b + of_nat i)) [0 ..< nat (?n + 1)]"
  let ?extents = "map (\<lambda>i. size_t_of_int (sint (interior_max grid_level i - interior_min grid_level i + 1)))
                      [0 ..< gv_dimension (yasp_view grid_view)]"
  have e: "sint (?a - ?b + 1) = ?n"
    using sint_diff_plus [of ?a ?b 1] assms(3,4) by simp
  have o: "sint (?a - ?b + 2) = ?n + 1"
    using sint_diff_plus [of ?a ?b 2] assms(3,4) by simp
  have "?n mod 2 ^ 64 = ?n"
    using assms(3,4) by simp
  then have s: "size_t_of_int ?n = nat ?n"
    by (simp add: size_t_of_int_def)
  have n: "nat (?n + 1) = nat ?n + 1"
    using assms(3) by simp
  have ex: "Extents_Yasp grid_view = Inr ?extents"
    using assms(1) by (simp add: Extents_Yasp_def)
  have or: "Ordinates_Yasp grid_view direction = Inr ?ordinates"
    using assms(1,3) o by (simp add: Ordinates_Yasp_def Let_def)
  have exd: "?extents ! direction = nat ?n"
    using assms(2) e s by simp
  have idx: "\<forall>i < length ?ordinates.
      ?ordinates ! i = coordinate grid_level direction (?b + of_nat i)
      \<and> sint (?b + of_nat i) = sint ?b + int i"
  proof (intro allI impI)
    fix i assume "i < length ?ordinates"
    then have i: "i < nat (?n + 1)" by simp
    then have "int i < ?n + 1" by linarith
    then have "sint ?b + int i < 2 ^ 31"
      using assms(5) by linarith
    moreover have "- (2 ^ 31) \<le> sint ?b + int i"
      using sint_ge [of ?b] by simp
    ultimately have "sint (?b + of_nat i) = sint ?b + int i"
      by (rule sint_plus_nat [rotated])
    moreover have "?ordinates ! i = coordinate grid_level direction (?b + of_nat i)"
      using i by simp
    ultimately show "?ordinates ! i = coordinate grid_level direction (?b + of_nat i)
      \<and> sint (?b + of_nat i) = sint ?b + int i"
      by simp
  qed
  have "length ?extents = gv_dimension (yasp_view grid_view)" by simp
  moreover have "int (?extents ! direction) = ?n"
    using exd assms(3) by simp
  moreover have "length ?ordinates = ?extents ! direction + 1"
    using exd n by simp
  ultimately show ?thesis
    using ex or idx by blast
qed

theorem yasp_ordinates_extents_witness:
  "yasp_grid_level (example_yasp_view 9) = Inr (example_level 9)
   \<and> (0::nat) < gv_dimension (yasp_view (example_yasp_view 9))
   \<and> 0 \<le> sint (interior_max (example_level 9) 0) - sint (interior_min (example_level 9) 0) + 1
   \<and> sint (interior_max (example_level 9) 0) - sint (interior_min (example_level 9) 0) + 2 < 2 ^ 31
   \<and> sint (interior_max (example_level 9) 0) + 1 < 2 ^ 31
   \<and> (\<exists>extents ordinates.
           Extents_Yasp (example_yasp_view 9) = Inr extents
           \<and> Ordinates_Yasp (example_yasp_view 9) 0 = Inr ordinates
           \<and> length extents = gv_dimension (yasp_view (example_yasp_view 9))
           \<and> int (extents ! 0) = 10
           \<and> length ordinates = extents ! 0 + 1)"
proof -
  have l: "yasp_grid_level (example_yasp_view 9) = Inr (example_level 9)"
    by (rule yasp_example_level)
  have d: "(0::nat) < gv_dimension (yasp_view (example_yasp_view 9))"
    by (simp add: example_yasp_view_def example_grid_view_def)
  have lo: "0 \<le> sint (interior_max (example_level 9) 0) - sint (interior_min (example_level 9) 0) + 1"
    by (simp add: example_level_def)
  have hi: "sint (interior_max (example_level 9) 0) - sint (interior_min (example_level 9) 0) + 2
      < 2 ^ 31"
    by (simp add: example_level_def)
  have top: "sint (interior_max (example_level 9) 0) + 1 < 2 ^ 31"
    by (simp add: example_level_def)
  have v: "sint (interior_max (example_level 9) 0) - sint (interior_min (example_level 9) 0) + 1 = 10"
    by (simp add: example_level_def)
  show ?thesis
    using yasp_ordinates_extents [OF l d lo hi top] l d lo hi top v by auto
qed

section \<open>Properties of the Lagrange mesh\<close>

lemma foldE_invariant:
  assumes "foldE f xs s = Inr s'" and "I s"
    and "\<And>x t t'. x \<in> set xs \<Longrightarrow> I t \<Longrightarrow> f x t = Inr t' \<Longrightarrow> I t'"
  shows "I s'"
  using assms
proof (induction xs arbitrary: s)
  case Nil
  then show ?case by simp
next
  case (Cons x xs)
  from Cons.prems(1) obtain t where t: "f x s = Inr t" and rest: "foldE f xs t = Inr s'"
    by (auto split: sum.splits)
  have "I t" using Cons.prems(3) [of x s t] Cons.prems(2) t by simp
  moreover have "\<And>y u u'. y \<in> set xs \<Longrightarrow> I u \<Longrightarrow> f y u = Inr u' \<Longrightarrow> I u'"
  proof -
    fix y u u' assume "y \<in> set xs" and "I u" and "f y u = Inr u'"
    then show "I u'" using Cons.prems(3) [of y u u'] by simp
  qed
  ultimately show ?case using rest Cons.IH by blast
qed

lemma insert_key_subset:
  "set (insert_key point_indices key index) \<subseteq> insert (key, index) (set point_indices)"
  by (induction point_indices key index rule: insert_key.induct) auto

text \<open>Every point index recorded by \<^verbatim>\<open>_make_points\<close> is the position of a point made.\<close>

lemma make_point_bounded:
  assumes "make_point grid_view element local_point st = Inr st'"
    and "\<forall>kv \<in> set (snd st). snd kv < length (fst st)"
  shows "\<forall>kv \<in> set (snd st'). snd kv < length (fst st')"
proof -
  obtain global_index where
    g: "mapper_subIndex grid_view element (lp_subEntity local_point) (lp_codim local_point)
        = Inr global_index"
    using assms(1) by (auto simp: make_point_def Let_def split: sum.splits)
  let ?key = "(lp_codim local_point, global_index, lp_index local_point)"
  show ?thesis
  proof (cases "contains (snd st) ?key")
    case True
    then have "st' = st"
      using assms(1) g by (simp add: make_point_def Let_def)
    with assms(2) show ?thesis by simp
  next
    case False
    then have st': "st' = (fst st @ [ent_global element (lp_point local_point)],
        insert_key (snd st) ?key (length (fst st)))"
      using assms(1) g by (simp add: make_point_def Let_def)
    show ?thesis
    proof
      fix kv assume "kv \<in> set (snd st')"
      then have "kv = (?key, length (fst st)) \<or> kv \<in> set (snd st)"
        using insert_key_subset [of "snd st" ?key "length (fst st)"] st' by auto
      then show "snd kv < length (fst st')"
        using assms(2) st' by (auto simp: less_Suc_eq)
    qed
  qed
qed

lemma make_points_bounded:
  assumes "make_points grid_view local_points st = Inr st'"
    and "\<forall>kv \<in> set (snd st). snd kv < length (fst st)"
  shows "\<forall>kv \<in> set (snd st'). snd kv < length (fst st')"
proof (rule foldE_invariant [where I = "\<lambda>t. \<forall>kv \<in> set (snd t). snd kv < length (fst t)",
      OF assms(1) [unfolded make_points_def] assms(2)])
  fix element t t'
  assume I: "\<forall>kv \<in> set (snd t). snd kv < length (fst t)"
    and step: "make_points_of_element grid_view local_points element t = Inr t'"
  from step obtain ps where "foldE (make_point grid_view element) ps t = Inr t'"
    by (auto simp: make_points_of_element_def split: sum.splits)
  then show "\<forall>kv \<in> set (snd t'). snd kv < length (fst t')"
    using I by (rule foldE_invariant) (rule make_point_bounded)
qed

text \<open>A helper that contains a key records at least one point.\<close>

lemma contains_positive:
  assumes "contains point_indices key" and "\<forall>kv \<in> set point_indices. snd kv < n"
  shows "0 < n"
proof -
  from assms(1) obtain v where "map_of point_indices key = Some v"
    by (auto simp: contains_def)
  then have "(key, v) \<in> set point_indices" by (rule map_of_SomeD)
  with assms(2) have "v < n" by fastforce
  then show ?thesis by simp
qed

lemma get_indices_bounded:
  assumes "get_indices point_indices codim global_index = Inr indices"
    and "\<forall>kv \<in> set point_indices. snd kv < n"
  shows "\<forall>entry \<in> set indices. snd entry < n"
proof
  fix entry assume e: "entry \<in> set indices"
  have "indices = map (\<lambda>((c, g, sub_index), index). (sub_index, index))
       (filter (\<lambda>((c, g, sub_index), index). c = codim \<and> g = global_index) point_indices)"
    using assms(1) by (simp add: get_indices_def Let_def split: if_splits)
  with e obtain kv where "kv \<in> set point_indices" and "snd entry = snd kv"
    by (auto split: prod.splits)
  with assms(2) show "snd entry < n" by simp
qed

lemma resize_bounded:
  assumes "\<forall>j \<in> set xs. j < n" and "0 < n"
  shows "\<forall>j \<in> set (resize k xs). j < n"
  using assms by (auto simp: resize_def dest: in_set_takeD)

lemma write_indices_bounded:
  assumes "foldE write_index indices sub_points = Inr sub_points'"
    and "\<forall>j \<in> set sub_points. j < n"
    and "\<forall>entry \<in> set indices. snd entry < n"
  shows "\<forall>j \<in> set sub_points'. j < n"
proof (rule foldE_invariant [where I = "\<lambda>t. \<forall>j \<in> set t. j < n", OF assms(1) assms(2)])
  fix entry t t'
  assume "entry \<in> set indices" and I: "\<forall>j \<in> set t. j < n" and "write_index entry t = Inr t'"
  then have t': "t' = t[fst entry := snd entry]" and "snd entry < n"
    using assms(3) by (auto simp: write_index_def Let_def split: if_splits)
  show "\<forall>j \<in> set t'. j < n"
  proof
    fix j assume "j \<in> set t'"
    then have "j \<in> insert (snd entry) (set t)"
      using set_update_subset_insert [of t "fst entry" "snd entry"] t' by auto
    with I \<open>snd entry < n\<close> show "j < n" by auto
  qed
qed

text \<open>Each loop of \<^verbatim>\<open>_set_connectivity\<close> keeps the entries below the number of points.\<close>

lemma set_sub_entity_bounded:
  assumes "set_sub_entity grid_view point_indices element codim sub_entity codim_points
           = Inr codim_points'"
    and "\<forall>kv \<in> set point_indices. snd kv < n"
    and "\<forall>sub \<in> set codim_points. \<forall>j \<in> set sub. j < n"
  shows "\<forall>sub \<in> set codim_points'. \<forall>j \<in> set sub. j < n"
proof -
  obtain mapped global_index where
    m: "dune_to_gfmt_sub_entity (ent_type element) sub_entity codim = Inr mapped"
    and g: "mapper_subIndex grid_view element sub_entity codim = Inr global_index"
    using assms(1) by (auto simp: set_sub_entity_def split: sum.splits)
  show ?thesis
  proof (cases "contains point_indices (codim, global_index, 0)")
    case False
    then have "codim_points' = codim_points"
      using assms(1) m g by (simp add: set_sub_entity_def)
    with assms(3) show ?thesis by simp
  next
    case True
    then obtain indices sub_points where
      i: "get_indices point_indices codim global_index = Inr indices"
      and r: "mapped < length codim_points"
      and w: "foldE write_index indices (resize (length indices) (codim_points ! mapped))
              = Inr sub_points"
      and c: "codim_points' = codim_points[mapped := sub_points]"
      using assms(1) m g by (auto simp: set_sub_entity_def split: sum.splits if_splits)
    have pos: "0 < n" using True assms(2) by (rule contains_positive)
    have "codim_points ! mapped \<in> set codim_points"
      using r by (rule nth_mem)
    with assms(3) have "\<forall>j \<in> set (codim_points ! mapped). j < n"
      by blast
    then have "\<forall>j \<in> set (resize (length indices) (codim_points ! mapped)). j < n"
      using pos by (rule resize_bounded)
    with w have s: "\<forall>j \<in> set sub_points. j < n"
      using get_indices_bounded [OF i assms(2)] by (rule write_indices_bounded)
    show ?thesis
    proof
      fix sub assume "sub \<in> set codim_points'"
      then have "sub \<in> insert sub_points (set codim_points)"
        using set_update_subset_insert [of codim_points mapped sub_points] c by auto
      with s assms(3) show "\<forall>j \<in> set sub. j < n" by auto
    qed
  qed
qed

lemma set_codim_bounded:
  assumes "set_codim grid_view point_indices element codim cell_pts = Inr cell_pts'"
    and "\<forall>kv \<in> set point_indices. snd kv < n"
    and "\<forall>j \<in> set cell_pts. j < n"
  shows "\<forall>j \<in> set cell_pts'. j < n"
proof -
  obtain codim_points where
    f: "foldE (set_sub_entity grid_view point_indices element codim)
          [0 ..< ent_subEntities element codim]
          (replicate (ent_subEntities element codim) []) = Inr codim_points"
    and c: "cell_pts' = cell_pts @ concat codim_points"
    using assms(1) by (auto simp: set_codim_def split: sum.splits)
  have "\<forall>sub \<in> set codim_points. \<forall>j \<in> set sub. j < n"
  proof (rule foldE_invariant [where I = "\<lambda>t. \<forall>sub \<in> set t. \<forall>j \<in> set sub. j < n", OF f])
    show "\<forall>sub \<in> set (replicate (ent_subEntities element codim) []). \<forall>j \<in> set sub. j < n"
      by simp
  next
    fix x t t'
    assume "\<forall>sub \<in> set t. \<forall>j \<in> set sub. j < n"
      and "set_sub_entity grid_view point_indices element codim x t = Inr t'"
    then show "\<forall>sub \<in> set t'. \<forall>j \<in> set sub. j < n"
      using assms(2) set_sub_entity_bounded by blast
  qed
  with assms(3) c show ?thesis by auto
qed

lemma set_cell_bounded:
  assumes "set_cell grid_view point_indices element st = Inr st'"
    and "\<forall>kv \<in> set point_indices. snd kv < n"
    and "\<forall>cell \<in> set (fst st). \<forall>j \<in> set cell. j < n"
  shows "\<forall>cell \<in> set (fst st'). \<forall>j \<in> set cell. j < n"
proof -
  obtain cell_pts where
    f: "foldE (set_codim grid_view point_indices element)
          (rev [0 ..< Suc (gv_dimension grid_view)]) [] = Inr cell_pts"
    and c: "fst st' = fst st @ [cell_pts]"
    using assms(1) by (auto simp: set_cell_def split: sum.splits)
  have "\<forall>j \<in> set cell_pts. j < n"
  proof (rule foldE_invariant [where I = "\<lambda>t. \<forall>j \<in> set t. j < n", OF f])
    show "\<forall>j \<in> set ([]::nat list). j < n" by simp
  next
    fix x t t'
    assume "\<forall>j \<in> set t. j < n" and "set_codim grid_view point_indices element x t = Inr t'"
    then show "\<forall>j \<in> set t'. j < n"
      using assms(2) set_codim_bounded by blast
  qed
  with assms(3) c show ?thesis by auto
qed

lemma set_connectivity_bounded:
  assumes "set_connectivity grid_view point_indices = Inr conn"
    and "\<forall>kv \<in> set point_indices. snd kv < n"
  shows "\<forall>cell \<in> set (fst conn). \<forall>j \<in> set cell. j < n"
proof (rule foldE_invariant [where I = "\<lambda>t. \<forall>cell \<in> set (fst t). \<forall>j \<in> set cell. j < n",
      OF assms(1) [unfolded set_connectivity_def]])
  show "\<forall>cell \<in> set (fst (([], [])::nat list list \<times> nat list)). \<forall>j \<in> set cell. j < n"
    by simp
next
  fix x t t'
  assume "\<forall>cell \<in> set (fst t). \<forall>j \<in> set cell. j < n"
    and "set_cell grid_view point_indices x t = Inr t'"
  then show "\<forall>cell \<in> set (fst t'). \<forall>j \<in> set cell. j < n"
    using assms(2) set_cell_bounded by blast
qed

lemma update_bounded:
  assumes "update build grid_view mesh0 = Inr mesh"
  shows "\<forall>cell \<in> set (m_cells mesh). \<forall>j \<in> set cell. j < length (m_points mesh)"
proof -
  let ?lp = "update_local_points build (m_order mesh0) grid_view"
  obtain made conn where
    mp: "make_points grid_view ?lp ([], []) = Inr made"
    and sc: "set_connectivity grid_view (snd made) = Inr conn"
    and m: "m_points mesh = fst made" "m_cells mesh = fst conn"
    using assms by (auto simp: update_def Let_def split: sum.splits)
  have "\<forall>kv \<in> set (snd made). snd kv < length (fst made)"
    using mp by (rule make_points_bounded) simp
  with sc have "\<forall>cell \<in> set (fst conn). \<forall>j \<in> set cell. j < length (fst made)"
    by (rule set_connectivity_bounded)
  with m show ?thesis by simp
qed

text \<open>
  C10. A mesh returned by the constructor or by an update has its connectivity in range:
  for every cell index below the number of cells, \<^verbatim>\<open>cell_points\<close> returns a list whose
  entries are all below the number of points, so that \<^verbatim>\<open>point\<close> returns for each of them.
\<close>

theorem connectivity_in_range:
  assumes "update build grid_view mesh0 = Inr mesh
           \<or> new_DuneLagrangeMesh build grid_view order = Inr mesh"
    and "i < number_of_cells mesh"
  shows "\<exists>cell. cell_points mesh i = Inr cell
           \<and> (\<forall>j \<in> set cell. j < number_of_points mesh \<and> (\<exists>position. point mesh j = Inr position))"
proof -
  from assms(1) obtain m0 where "update build grid_view m0 = Inr mesh"
    by (auto simp: new_DuneLagrangeMesh_def split: sum.splits if_splits)
  then have "\<forall>cell \<in> set (m_cells mesh). \<forall>j \<in> set cell. j < length (m_points mesh)"
    by (rule update_bounded)
  moreover have "m_cells mesh ! i \<in> set (m_cells mesh)"
    using assms(2) by (simp add: number_of_cells_def)
  ultimately have "\<forall>j \<in> set (m_cells mesh ! i). j < length (m_points mesh)"
    by blast
  with assms(2) show ?thesis
    by (simp add: cell_points_def number_of_cells_def number_of_points_def point_def)
qed

theorem connectivity_in_range_witness:
  "update example_local_points (example_grid_view 1 OverlapEntity) example_mesh0 = Inr example_mesh
   \<and> new_DuneLagrangeMesh example_local_points (example_grid_view 1 OverlapEntity) 1 = Inr example_mesh
   \<and> 0 < number_of_cells example_mesh
   \<and> m_cells example_mesh = [[0, 1, 3, 2]]
   \<and> number_of_points example_mesh = 4
   \<and> (\<exists>cell. cell_points example_mesh 0 = Inr cell
         \<and> (\<forall>j \<in> set cell. j < number_of_points example_mesh
                \<and> (\<exists>position. point example_mesh j = Inr position)))"
proof -
  have r: "\<not> isl (update example_local_points (example_grid_view 1 OverlapEntity) example_mesh0)"
    by code_simp
  then have u: "update example_local_points (example_grid_view 1 OverlapEntity) example_mesh0
      = Inr example_mesh"
    by (cases "update example_local_points (example_grid_view 1 OverlapEntity) example_mesh0")
      (simp_all add: example_mesh_def)
  then have c: "new_DuneLagrangeMesh example_local_points (example_grid_view 1 OverlapEntity) 1
      = Inr example_mesh"
    by (simp add: new_DuneLagrangeMesh_def example_mesh0_def)
  have n: "0 < number_of_cells example_mesh"
    by code_simp
  have cells: "m_cells example_mesh = [[0, 1, 3, 2]]"
    by code_simp
  have points: "number_of_points example_mesh = 4"
    by code_simp
  show ?thesis
    using connectivity_in_range [OF disjI1 [OF u] n] u c n cells points by blast
qed

section \<open>Properties of the parallel reference scenario\<close>

lemma main_grid_even:
  "even comm_size \<Longrightarrow> main_grid comm_size rank =
     Inr \<lparr>ig_origin = (real (rank mod 2), real (rank div 2)), ig_size = (1, 1), ig_cells = (10, 15)\<rparr>"
  by (simp add: main_grid_def Let_def even_iff_mod_2_eq_zero)

lemma in_piece_main_grid:
  "(\<exists>grid. main_grid 4 rank = Inr grid \<and> in_piece grid (x, y))
   = (real (rank mod 2) \<le> x \<and> x < real (rank mod 2) + 1
      \<and> real (rank div 2) \<le> y \<and> y < real (rank div 2) + 1)"
  by (simp add: main_grid_even in_piece_def)

lemma unit_interval_unique:
  assumes "real a \<le> x" "x < real a + 1" "real b \<le> x" "x < real b + 1"
  shows "a = b"
proof -
  have "real a < real b + 1" and "real b < real a + 1" using assms by linarith+
  then have "a < b + 1" and "b < a + 1" by linarith+
  then show ?thesis by simp
qed

lemma piece_exists:
  assumes "0 \<le> x" "x < 2" "0 \<le> y" "y < 2"
  shows "\<exists>rank. rank < 4 \<and> real (rank mod 2) \<le> x \<and> x < real (rank mod 2) + 1
      \<and> real (rank div 2) \<le> y \<and> y < real (rank div 2) + 1"
proof -
  consider "x < 1" "y < 1" | "1 \<le> x" "y < 1" | "x < 1" "1 \<le> y" | "1 \<le> x" "1 \<le> y"
    by linarith
  then show ?thesis
  proof cases
    case 1 then show ?thesis using assms by (intro exI [of _ 0]) simp
  next
    case 2 then show ?thesis using assms by (intro exI [of _ 1]) simp
  next
    case 3 then show ?thesis using assms by (intro exI [of _ 2]) simp
  next
    case 4 then show ?thesis using assms by (intro exI [of _ 3]) simp
  qed
qed

lemma piece_unique:
  assumes "real (r mod 2) \<le> x \<and> x < real (r mod 2) + 1
           \<and> real (r div 2) \<le> y \<and> y < real (r div 2) + 1"
    and "real (s mod 2) \<le> x \<and> x < real (s mod 2) + 1
         \<and> real (s div 2) \<le> y \<and> y < real (s div 2) + 1"
  shows "r = (s::nat)"
proof -
  have "r mod 2 = s mod 2" using assms by (intro unit_interval_unique [of _ x]) simp_all
  moreover have "r div 2 = s div 2" using assms by (intro unit_interval_unique [of _ y]) simp_all
  ultimately show ?thesis by (metis div_mult_mod_eq)
qed

lemma piece_inside:
  assumes "rank < 4"
    and "real (rank mod 2) \<le> x \<and> x < real (rank mod 2) + 1
         \<and> real (rank div 2) \<le> y \<and> y < real (rank div 2) + 1"
  shows "0 \<le> x \<and> x < 2 \<and> 0 \<le> y \<and> y < 2"
proof -
  have "rank mod 2 \<le> 1" and "rank div 2 \<le> 1" using assms(1) by simp_all
  then have "real (rank mod 2) \<le> 1" and "real (rank div 2) \<le> 1"
    by linarith+
  moreover have "0 \<le> real (rank mod 2)" and "0 \<le> real (rank div 2)" by simp_all
  ultimately show ?thesis using assms(2) by linarith
qed

text \<open>
  C7. For an even number of processes, the grid of rank \<open>r\<close> has origin
  \<open>(r mod 2, r div 2)\<close>, side lengths 1 by 1 and 10 by 15 cells. With four processes the
  four pieces tile the square of side 2: every point of the square lies in the piece of
  exactly one rank, and every piece lies in the square. The summary lists four piece
  references, one per rank.
\<close>

theorem parallel_reference_pieces:
  "(even comm_size \<longrightarrow> main_grid comm_size rank =
      Inr \<lparr>ig_origin = (real (rank mod 2), real (rank div 2)), ig_size = (1, 1), ig_cells = (10, 15)\<rparr>)
   \<and> (0 \<le> x \<and> x < 2 \<and> 0 \<le> y \<and> y < 2 \<longrightarrow>
        (\<exists>!r. r < 4 \<and> (\<exists>grid. main_grid 4 r = Inr grid \<and> in_piece grid (x, y))))
   \<and> (rank < 4 \<and> (\<exists>grid. main_grid 4 rank = Inr grid \<and> in_piece grid (x, y)) \<longrightarrow>
        0 \<le> x \<and> x < 2 \<and> 0 \<le> y \<and> y < 2)
   \<and> length (piece_references filename 4) = 4
   \<and> map snd (piece_references filename 4) = [0, 1, 2, 3]"
proof (intro conjI impI)
  assume "even comm_size"
  then show "main_grid comm_size rank =
      Inr \<lparr>ig_origin = (real (rank mod 2), real (rank div 2)), ig_size = (1, 1), ig_cells = (10, 15)\<rparr>"
    by (rule main_grid_even)
next
  assume h: "0 \<le> x \<and> x < 2 \<and> 0 \<le> y \<and> y < 2"
  show "\<exists>!r. r < 4 \<and> (\<exists>grid. main_grid 4 r = Inr grid \<and> in_piece grid (x, y))"
    unfolding in_piece_main_grid
  proof (rule ex_ex1I)
    show "\<exists>r. r < 4 \<and> real (r mod 2) \<le> x \<and> x < real (r mod 2) + 1
        \<and> real (r div 2) \<le> y \<and> y < real (r div 2) + 1"
      using h piece_exists by blast
  next
    fix r s
    assume "r < 4 \<and> real (r mod 2) \<le> x \<and> x < real (r mod 2) + 1
        \<and> real (r div 2) \<le> y \<and> y < real (r div 2) + 1"
      and "s < 4 \<and> real (s mod 2) \<le> x \<and> x < real (s mod 2) + 1
        \<and> real (s div 2) \<le> y \<and> y < real (s div 2) + 1"
    then show "r = s" using piece_unique [of r x y s] by blast
  qed
next
  assume "rank < 4 \<and> (\<exists>grid. main_grid 4 rank = Inr grid \<and> in_piece grid (x, y))"
  then have "rank < 4" and "real (rank mod 2) \<le> x \<and> x < real (rank mod 2) + 1
      \<and> real (rank div 2) \<le> y \<and> y < real (rank div 2) + 1"
    unfolding in_piece_main_grid by simp_all
  then have "0 \<le> x \<and> x < 2 \<and> 0 \<le> y \<and> y < 2" by (rule piece_inside)
  then show "0 \<le> x" "x < 2" "0 \<le> y" "y < 2" by simp_all
next
  show "length (piece_references filename 4) = 4"
    by (simp add: piece_references_def)
next
  show "map snd (piece_references filename 4) = [0, 1, 2, 3]"
    by (simp add: piece_references_def upt_0_4 comp_def)
qed

theorem parallel_reference_pieces_witness:
  "even (4::nat)
   \<and> main_grid 4 3 = Inr \<lparr>ig_origin = (1, 1), ig_size = (1, 1), ig_cells = (10, 15)\<rparr>
   \<and> (0::real) \<le> 3 / 2 \<and> (3::real) / 2 < 2 \<and> (0::real) \<le> 1 / 2 \<and> (1::real) / 2 < 2
   \<and> (\<exists>!r. r < 4 \<and> (\<exists>grid. main_grid 4 r = Inr grid \<and> in_piece grid (3 / 2, 1 / 2)))
   \<and> (\<exists>grid. main_grid 4 1 = Inr grid \<and> in_piece grid (3 / 2, 1 / 2))"
proof -
  have g: "\<exists>grid. main_grid 4 1 = Inr grid \<and> in_piece grid (3 / 2, 1 / 2)"
    by (simp add: main_grid_def in_piece_def)
  show ?thesis
    using parallel_reference_pieces [of 4 3 "3 / 2" "1 / 2"] g by simp
qed

end
